theory Spec2Isabelle
  imports Main "HOL-Library.Word"
begin

unbundle bit_operations_syntax

section \<open>Data model of \<^verbatim>\<open>spotifyservice/server.go\<close>\<close>

text \<open>
  The handlers of \<^verbatim>\<open>(*Server).routes\<close> return nothing: everything they do is a call
  on a collaborator (the response writer, the logger, standard output, the provider
  client). A handler is modelled as the list of these calls, in program order.
\<close>

type_synonym byte = "8 word"

text \<open>
  A Go \<^verbatim>\<open>error\<close> value. \<^verbatim>\<open>http.ErrNoCookie\<close> is a sentinel compared by identity
  (\<^verbatim>\<open>err == http.ErrNoCookie\<close>), so it has a constructor of its own; every other
  error is known by its message only.
\<close>

datatype go_error = ErrNoCookie | GoError string

fun Error :: "go_error \<Rightarrow> string" where
  "Error ErrNoCookie = ''http: named cookie not present''"
| "Error (GoError msg) = msg"

text \<open>\<^verbatim>\<open>http.Cookie\<close>, with the fields the handlers and the state store use.\<close>

record cookie =
  Name :: string
  Value :: string
  Path :: string
  HttpOnly :: bool

text \<open>
  The request, as far as the handlers read it: \<^verbatim>\<open>r.Form\<close> (a Go map from a key to
  its values, a missing key giving the empty slice) and the result of
  \<^verbatim>\<open>r.Cookie(name)\<close>.
\<close>

record request =
  Form :: "string \<Rightarrow> string list"
  Cookie :: "string \<Rightarrow> go_error + cookie"

text \<open>\<^verbatim>\<open>r.FormValue(key)\<close>: the first value of the key, the empty string when there is none.\<close>

definition FormValue :: "request \<Rightarrow> string \<Rightarrow> string" where
  "FormValue r key = (case Form r key of [] \<Rightarrow> [] | v # _ \<Rightarrow> v)"

text \<open>\<^verbatim>\<open>spotifyapi.QParams\<close>: three optional (pointer) fields.\<close>

record QParams =
  Limit :: "int option"
  Offset :: "int option"
  Market :: "string option"

text \<open>
  The provider client \<^verbatim>\<open>s.client\<close>: its OAuth2 configuration (the credentials
  \<^verbatim>\<open>NewClient\<close> is given, with the provider's consent endpoint and the scopes
  asked for) and its three operations. The token, the user profile and the page of
  saved tracks are opaque to the handlers: type parameters \<open>'t\<close>, \<open>'u\<close>, \<open>'s\<close>.
  Each operation is given by its result on its arguments.
\<close>

record config =
  ClientID :: string
  ClientSecret :: string
  RedirectURL :: string
  AuthURL :: string
  Scopes :: "string list"

record ('t, 'u, 's) client =
  Config :: config
  Exchange :: "string \<Rightarrow> go_error + 't"
  GetUserProfileRequest :: "'t \<Rightarrow> go_error + 'u"
  GetUserSavedTracks :: "'t \<Rightarrow> QParams \<Rightarrow> go_error + 's"

text \<open>
  \<^verbatim>\<open>encoding/json\<close> as the callback uses it: the result of
  \<^verbatim>\<open>json.Marshal(r.Header)\<close> for the request at hand, and
  \<^verbatim>\<open>json.MarshalIndent(*tracks, "", "  ")\<close> as a function of the page.
\<close>

record 's json =
  MarshalHeader :: "go_error + string"
  MarshalIndent :: "'s \<Rightarrow> go_error + string"

text \<open>The calls a handler makes.\<close>

datatype ('t, 'u, 's) effect =
    Log string  \<comment> \<open>\<^verbatim>\<open>log.Println\<close>, \<^verbatim>\<open>log.Printf\<close> of text\<close>
  | LogContext  \<comment> \<open>\<^verbatim>\<open>log.Println(ctx)\<close>\<close>
  | LogToken 't  \<comment> \<open>\<^verbatim>\<open>log.Println(token)\<close>\<close>
  | LogQuery  \<comment> \<open>\<^verbatim>\<open>log.Println(r.URL.Query())\<close>\<close>
  | LogUser 'u  \<comment> \<open>\<^verbatim>\<open>log.Printf("%+v\n", user)\<close>\<close>
  | Fatal string  \<comment> \<open>\<^verbatim>\<open>log.Fatalf\<close>: logs and exits the process\<close>
  | Print string  \<comment> \<open>\<^verbatim>\<open>fmt.Println\<close>, \<^verbatim>\<open>fmt.Print\<close> of text, on standard output\<close>
  | PrintCookie "cookie option"  \<comment> \<open>\<^verbatim>\<open>fmt.Println(cookie)\<close>, \<open>None\<close> the nil pointer\<close>
  | PrintHeader  \<comment> \<open>\<^verbatim>\<open>fmt.Println(w.Header())\<close>\<close>
  | SetCookie cookie  \<comment> \<open>\<^verbatim>\<open>http.SetCookie(w, c)\<close>\<close>
  | Redirect string nat  \<comment> \<open>\<^verbatim>\<open>http.Redirect(w, r, url, code)\<close>\<close>
  | HttpError string nat  \<comment> \<open>\<^verbatim>\<open>http.Error(w, msg, code)\<close>\<close>
  | HeaderSet string string  \<comment> \<open>\<^verbatim>\<open>w.Header().Set(key, value)\<close>\<close>
  | WriteHeader nat  \<comment> \<open>\<^verbatim>\<open>w.WriteHeader(code)\<close>\<close>
  | CallExchange string  \<comment> \<open>\<^verbatim>\<open>s.client.Config.Exchange(ctx, code)\<close>\<close>
  | CallGetUserProfile 't  \<comment> \<open>\<^verbatim>\<open>s.client.GetUserProfileRequest(ctx, token)\<close>\<close>
  | CallGetUserSavedTracks 't QParams  \<comment> \<open>\<^verbatim>\<open>s.client.GetUserSavedTracks(ctx, token, &params)\<close>\<close>

definition StatusTemporaryRedirect :: nat where
  "StatusTemporaryRedirect = 307"

definition StatusBadRequest :: nat where
  "StatusBadRequest = 400"

definition StatusUnauthorized :: nat where
  "StatusUnauthorized = 401"

definition stateCookieName :: string where
  "stateCookieName = ''oauthState''"

section \<open>The callback handler, \<^verbatim>\<open>GET /auth/callback\<close>\<close>

text \<open>Lines 218 to 235: the saved-tracks fetch and the printing of its result.\<close>

definition callbackTracks ::
  "('t, 'u, 's) client \<Rightarrow> 's json \<Rightarrow> 't \<Rightarrow> ('t, 'u, 's) effect list" where
  "callbackTracks c j token =
     (let params = \<lparr>Limit = Some 50, Offset = Some 0, Market = Some ''us''\<rparr> in
      CallGetUserSavedTracks token params #
      (case GetUserSavedTracks c token params of
         Inl err \<Rightarrow> [HttpError (Error err) StatusBadRequest]
       | Inr tracks \<Rightarrow>
           Log ''getting user tracks'' #
           (case MarshalIndent j tracks of
              Inl err \<Rightarrow> [Print (Error err), Print []]
            | Inr b \<Rightarrow> [Print b])))"

text \<open>Lines 195 to 214: the logging after the exchange and the profile fetch.\<close>

definition callbackProfile ::
  "('t, 'u, 's) client \<Rightarrow> 's json \<Rightarrow> 't \<Rightarrow> ('t, 'u, 's) effect list" where
  "callbackProfile c j token =
     [LogToken token, Log ''query params?'', LogQuery,
      (case MarshalHeader j of
         Inl err \<Rightarrow> Log ''Could not Marshal Req Headers''
       | Inr reqHeadersBytes \<Rightarrow> Log reqHeadersBytes),
      CallGetUserProfile token] @
     (case GetUserProfileRequest c token of
        Inl err \<Rightarrow> [HttpError (Error err) StatusBadRequest]
      | Inr user \<Rightarrow>
          [Log ''getting user'', LogUser user] @ callbackTracks c j token)"

text \<open>Lines 177 to 191: the code-for-token exchange.\<close>

definition callbackExchange ::
  "('t, 'u, 's) client \<Rightarrow> 's json \<Rightarrow> request \<Rightarrow> ('t, 'u, 's) effect list" where
  "callbackExchange c j r =
     (let authCode = FormValue r ''code'' in
      [Log (''code='' @ authCode), CallExchange authCode] @
      (case Exchange c authCode of
         Inl err \<Rightarrow>
           [Log (''error converting auth code into token; '' @ Error err),
            HttpError (Error err) StatusBadRequest]
       | Inr token \<Rightarrow> callbackProfile c j token))"

text \<open>
  Lines 149 to 235, the whole handler. In the branch of a failed cookie read the
  \<^verbatim>\<open>http.Redirect\<close> of line 163 is inside \<^verbatim>\<open>if err == http.ErrNoCookie\<close> and
  is followed by no \<^verbatim>\<open>return\<close>: line 165 runs for every error.
\<close>

definition callback ::
  "('t, 'u, 's) client \<Rightarrow> 's json \<Rightarrow> request \<Rightarrow> ('t, 'u, 's) effect list" where
  "callback c j r =
     (if FormValue r ''error'' \<noteq> [] then
        [Log (''user authorization failed. Reason='' @ FormValue r ''error''),
         Redirect ''/'' StatusTemporaryRedirect]
      else
        (case Cookie r stateCookieName of
           Inl err \<Rightarrow>
             (if err = ErrNoCookie then
                [Log (''Error finding cookie:  '' @ Error err),
                 Redirect ''/'' StatusUnauthorized]
              else []) @
             [HttpError (Error err) StatusBadRequest]
         | Inr oauthStateCookie \<Rightarrow>
             Log (Name oauthStateCookie @ ''='' @ Value oauthStateCookie @ [CHR 0x0D]) #
             (if FormValue r ''state'' \<noteq> Value oauthStateCookie then
                [Log ''invalid oauth2 spotify state. state_mismatch err'',
                 Redirect ''/'' StatusUnauthorized]
              else callbackExchange c j r)))"

text \<open>
  The three checks before the exchange (lines 152, 160 and 169): the request carries
  no provider error, the state cookie is read, and the \<^verbatim>\<open>state\<close> parameter is
  equal to the cookie's value.
\<close>

definition passesChecks :: "request \<Rightarrow> cookie \<Rightarrow> bool" where
  "passesChecks r ck =
     (FormValue r ''error'' = [] \<and> Cookie r stateCookieName = Inr ck \<and>
      FormValue r ''state'' = Value ck)"

section \<open>Observations on a handler's calls\<close>

text \<open>The calls that reach the provider.\<close>

fun isProviderCall :: "('t, 'u, 's) effect \<Rightarrow> bool" where
  "isProviderCall (CallExchange _) = True"
| "isProviderCall (CallGetUserProfile _) = True"
| "isProviderCall (CallGetUserSavedTracks _ _) = True"
| "isProviderCall _ = False"

definition providerCalls :: "('t, 'u, 's) effect list \<Rightarrow> ('t, 'u, 's) effect list" where
  "providerCalls tr = filter isProviderCall tr"

text \<open>The calls on the response writer.\<close>

fun isResponseWrite :: "('t, 'u, 's) effect \<Rightarrow> bool" where
  "isResponseWrite (SetCookie _) = True"
| "isResponseWrite (Redirect _ _) = True"
| "isResponseWrite (HttpError _ _) = True"
| "isResponseWrite (HeaderSet _ _) = True"
| "isResponseWrite (WriteHeader _) = True"
| "isResponseWrite _ = False"

definition responseWrites :: "('t, 'u, 's) effect list \<Rightarrow> ('t, 'u, 's) effect list" where
  "responseWrites tr = filter isResponseWrite tr"

text \<open>
  The status line of the response. \<^verbatim>\<open>http.Redirect\<close>, \<^verbatim>\<open>http.Error\<close> and
  \<^verbatim>\<open>w.WriteHeader\<close> each write the status code; the response writer of
  \<^verbatim>\<open>net/http\<close> sends the first one and ignores every later one. \<open>None\<close>: the
  handler wrote none.
\<close>

fun statusWritten :: "('t, 'u, 's) effect \<Rightarrow> nat option" where
  "statusWritten (Redirect _ code) = Some code"
| "statusWritten (HttpError _ code) = Some code"
| "statusWritten (WriteHeader code) = Some code"
| "statusWritten _ = None"

fun responseStatus :: "('t, 'u, 's) effect list \<Rightarrow> nat option" where
  "responseStatus [] = None"
| "responseStatus (e # es) =
     (case statusWritten e of Some code \<Rightarrow> Some code | None \<Rightarrow> responseStatus es)"

section \<open>The state token generator, \<^verbatim>\<open>genRandState\<close>\<close>

text \<open>
  \<^verbatim>\<open>base64.StdEncoding\<close>: the alphabet of RFC 4648, section 4, with the padding
  character \<^verbatim>\<open>=\<close>. \<^verbatim>\<open>Encode\<close> follows the loop of \<^verbatim>\<open>encoding/base64\<close>: three
  source bytes are packed into an unsigned machine integer (64 bits here) and read
  back six bits at a time; a last block of one or two bytes is padded.
\<close>

definition encodeStd :: string where
  "encodeStd = ''ABCDEFGHIJKLMNOPQRSTUVWXYZabcdefghijklmnopqrstuvwxyz0123456789+/''"

definition padChar :: char where
  "padChar = CHR ''=''"

definition encode :: "64 word \<Rightarrow> char" where
  "encode i = encodeStd ! unat i"

fun Encode :: "byte list \<Rightarrow> string" where
  "Encode (b0 # b1 # b2 # src) =
     (let val = push_bit 16 (ucast b0) OR push_bit 8 (ucast b1) OR ucast b2 in
      [encode (drop_bit 18 val AND 0x3F), encode (drop_bit 12 val AND 0x3F),
       encode (drop_bit 6 val AND 0x3F), encode (val AND 0x3F)] @ Encode src)"
| "Encode [b0, b1] =
     (let val = push_bit 16 (ucast b0) OR push_bit 8 (ucast b1) in
      [encode (drop_bit 18 val AND 0x3F), encode (drop_bit 12 val AND 0x3F),
       encode (drop_bit 6 val AND 0x3F), padChar])"
| "Encode [b0] =
     (let val = push_bit 16 (ucast b0) in
      [encode (drop_bit 18 val AND 0x3F), encode (drop_bit 12 val AND 0x3F),
       padChar, padChar])"
| "Encode [] = []"

definition EncodeToString :: "byte list \<Rightarrow> string" where
  "EncodeToString src = Encode src"

text \<open>
  Lines 36 to 45. \<^verbatim>\<open>rand.Read(bytes)\<close> is the entropy source: asked for \<open>n\<close> bytes
  it gives an error or the bytes. On an error \<^verbatim>\<open>log.Fatalf\<close> ends the process and
  the function does not return (\<open>None\<close>).
\<close>

definition genRandState ::
  "(nat \<Rightarrow> go_error + byte list) \<Rightarrow> ('t, 'u, 's) effect list \<times> string option" where
  "genRandState randRead =
     (case randRead 32 of
        Inl err \<Rightarrow>
          ([Log ''generating rand bytes'', Fatal (''failed to read rand fn '' @ Error err)],
           None)
      | Inr bytes \<Rightarrow> ([Log ''generating rand bytes''], Some (EncodeToString bytes)))"

section \<open>URLs\<close>

text \<open>
  \<^verbatim>\<open>url.QueryEscape\<close> of \<^verbatim>\<open>net/url\<close>: letters, digits and \<^verbatim>\<open>- _ . ~\<close> stand for
  themselves, a space becomes \<^verbatim>\<open>+\<close>, every other byte is \<^verbatim>\<open>%XX\<close>.
\<close>

definition shouldEscape :: "char \<Rightarrow> bool" where
  "shouldEscape c =
     (c \<notin> set ''abcdefghijklmnopqrstuvwxyzABCDEFGHIJKLMNOPQRSTUVWXYZ0123456789-_.~'')"

definition upperhex :: string where
  "upperhex = ''0123456789ABCDEF''"

definition escapeChar :: "char \<Rightarrow> string" where
  "escapeChar c =
     (if c = CHR '' '' then ''+''
      else if shouldEscape c then
        [CHR ''%'', upperhex ! (of_char c div 16), upperhex ! (of_char c mod 16)]
      else [c])"

definition QueryEscape :: "string \<Rightarrow> string" where
  "QueryEscape s = concat (map escapeChar s)"

text \<open>A string is URL-safe when no character of it has to be escaped.\<close>

definition urlSafe :: "string \<Rightarrow> bool" where
  "urlSafe s = list_all (\<lambda>c. \<not> shouldEscape c) s"

text \<open>\<^verbatim>\<open>url.QueryUnescape\<close>, the inverse: \<open>None\<close> is its error.\<close>

definition unhex :: "char \<Rightarrow> nat option" where
  "unhex c =
     (let n = of_char c :: nat in
      if 48 \<le> n \<and> n \<le> 57 then Some (n - 48)
      else if 97 \<le> n \<and> n \<le> 102 then Some (n - 97 + 10)
      else if 65 \<le> n \<and> n \<le> 70 then Some (n - 65 + 10)
      else None)"

fun QueryUnescape :: "string \<Rightarrow> string option" where
  "QueryUnescape [] = Some []"
| "QueryUnescape (c # s) =
     (if c = CHR ''%'' then
        (case s of
           h # l # rest \<Rightarrow>
             (case (unhex h, unhex l) of
                (Some a, Some b) \<Rightarrow>
                  map_option (\<lambda>t. char_of (a * 16 + b) # t) (QueryUnescape rest)
              | _ \<Rightarrow> None)
         | _ \<Rightarrow> None)
      else if c = CHR ''+'' then map_option (\<lambda>t. CHR '' '' # t) (QueryUnescape s)
      else map_option (\<lambda>t. c # t) (QueryUnescape s))"

text \<open>\<^verbatim>\<open>strings.Join\<close>.\<close>

fun Join :: "string list \<Rightarrow> string \<Rightarrow> string" where
  "Join [] sep = []"
| "Join [x] sep = x"
| "Join (x # y # xs) sep = x @ sep @ Join (y # xs) sep"

text \<open>
  \<^verbatim>\<open>url.Values.Encode\<close> on the pairs of a query, given in the order of their keys:
  \<^verbatim>\<open>key=value\<close>, both escaped, joined by \<^verbatim>\<open>&\<close>.
\<close>

definition EncodeValues :: "(string \<times> string) list \<Rightarrow> string" where
  "EncodeValues v = Join (map (\<lambda>(k, x). QueryEscape k @ ''='' @ QueryEscape x) v) ''&''"

section \<open>The login handler, \<^verbatim>\<open>GET /auth\<close>\<close>

text \<open>
  Modelled from the spec: \<^verbatim>\<open>internal.NewCookie\<close> (package \<^verbatim>\<open>internal\<close> of this
  repository is not among the sources). Section 4.2, \<^verbatim>\<open>issue(state)\<close>, and section 6:
  the cookie has the name it is given, value = state, scope = whole site (path
  \<^verbatim>\<open>/\<close>), HTTP-only. The spec gives the max-age as short and the secure flag as
  depending on TLS, without values: they are not modelled.
\<close>

definition NewCookie :: "string \<Rightarrow> string \<Rightarrow> cookie" where
  "NewCookie name val = \<lparr>Name = name, Value = val, Path = ''/'', HttpOnly = True\<rparr>"

text \<open>
  Modelled from the spec: \<^verbatim>\<open>s.client.Config.AuthCodeURL\<close> (the client is built by
  package \<^verbatim>\<open>spotifyapi\<close> of this repository, not among the sources, on the OAuth2
  library). Section 4.3, \<^verbatim>\<open>buildAuthURL(state)\<close>: a deterministic function of the
  credentials and the state, that embeds the state value and the redirect URL. The
  layout is the OAuth2 library's: the consent endpoint, then the query
  \<^verbatim>\<open>client_id\<close>, \<^verbatim>\<open>redirect_uri\<close>, \<^verbatim>\<open>response_type=code\<close>, \<^verbatim>\<open>scope\<close>,
  \<^verbatim>\<open>state\<close>, an empty redirect URL, scope list or state being left out. Here the
  pairs of the query.
\<close>

definition authValues :: "config \<Rightarrow> string \<Rightarrow> (string \<times> string) list" where
  "authValues cfg state =
     [(''client_id'', ClientID cfg)] @
     (if RedirectURL cfg \<noteq> [] then [(''redirect_uri'', RedirectURL cfg)] else []) @
     [(''response_type'', ''code'')] @
     (if Scopes cfg \<noteq> [] then [(''scope'', Join (Scopes cfg) '' '')] else []) @
     (if state \<noteq> [] then [(''state'', state)] else [])"

text \<open>
  Modelled from the spec: \<^verbatim>\<open>s.client.Config.AuthCodeURL\<close>, as said above: the
  consent endpoint, \<^verbatim>\<open>?\<close> (or \<^verbatim>\<open>&\<close> when the endpoint has a query already), and
  the encoded query.
\<close>

definition AuthCodeURL :: "config \<Rightarrow> string \<Rightarrow> string" where
  "AuthCodeURL cfg state =
     AuthURL cfg @ (if CHR ''?'' \<in> set (AuthURL cfg) then ''&'' else ''?'') @
     EncodeValues (authValues cfg state)"

text \<open>
  Lines 123 to 146. The cookie read at the start is only logged and printed. When
  \<^verbatim>\<open>genRandState\<close> does not return, the handler ends with it.
\<close>

definition auth ::
  "('t, 'u, 's) client \<Rightarrow> (nat \<Rightarrow> go_error + byte list) \<Rightarrow> request \<Rightarrow>
   ('t, 'u, 's) effect list" where
  "auth c randRead r =
     [LogContext, Log ''checking if user already has a cookie stored in their browser''] @
     (case Cookie r stateCookieName of
        Inl err \<Rightarrow> [Log (''we got no cookie in request, '' @ Error err), PrintCookie None]
      | Inr cookie \<Rightarrow> [PrintCookie (Some cookie)]) @
     (case genRandState randRead of
        (logs, None) \<Rightarrow> logs
      | (logs, Some localState) \<Rightarrow>
          logs @
          [SetCookie (NewCookie stateCookieName localState),
           Print localState,
           PrintHeader,
           Redirect (AuthCodeURL (Config c) localState) StatusTemporaryRedirect])"

section \<open>The logout handler, \<^verbatim>\<open>GET /logout/{provider}\<close>\<close>

text \<open>Lines 237 to 241. The handler reads nothing of the request.\<close>

definition logout :: "request \<Rightarrow> ('t, 'u, 's) effect list" where
  "logout r = [HeaderSet ''Location'' ''/'', WriteHeader StatusTemporaryRedirect]"

section \<open>Example requests and collaborators\<close>

text \<open>
  The scenarios of the spec's section 8: the cookie \<^verbatim>\<open>oauthState=ABC123\<close>, the
  authorization code \<^verbatim>\<open>XYZ\<close>, a provider client given by the results of its three
  operations.
\<close>

definition exampleCookie :: cookie where
  "exampleCookie = \<lparr>Name = ''oauthState'', Value = ''ABC123'', Path = ''/'', HttpOnly = True\<rparr>"

definition exampleRequest :: "(string \<times> string) list \<Rightarrow> go_error + cookie \<Rightarrow> request" where
  "exampleRequest query ck =
     \<lparr>Form = (\<lambda>key. map snd (filter (\<lambda>p. fst p = key) query)),
      Cookie = (\<lambda>name. if name = ''oauthState'' then ck else Inl ErrNoCookie)\<rparr>"

definition deniedRequest :: request where
  "deniedRequest =
     exampleRequest [(''error'', ''access_denied''), (''state'', ''ABC123''), (''code'', ''XYZ'')]
       (Inr exampleCookie)"

definition noCookieRequest :: request where
  "noCookieRequest =
     exampleRequest [(''state'', ''ABC123''), (''code'', ''XYZ'')] (Inl ErrNoCookie)"

definition mismatchRequest :: request where
  "mismatchRequest =
     exampleRequest [(''state'', ''WRONG''), (''code'', ''XYZ'')] (Inr exampleCookie)"

definition goodRequest :: request where
  "goodRequest =
     exampleRequest [(''state'', ''ABC123''), (''code'', ''XYZ'')] (Inr exampleCookie)"

definition exampleConfig :: config where
  "exampleConfig =
     \<lparr>ClientID = ''id'', ClientSecret = ''secret'',
      RedirectURL = ''http://localhost:8080/auth/callback'',
      AuthURL = ''https://accounts.spotify.com/authorize'',
      Scopes = [''user-library-read'']\<rparr>"

definition exampleClient ::
  "go_error + string \<Rightarrow> go_error + string \<Rightarrow> go_error + string \<Rightarrow>
   (string, string, string) client" where
  "exampleClient ex pr tr =
     \<lparr>Config = exampleConfig, Exchange = (\<lambda>code. ex),
      GetUserProfileRequest = (\<lambda>token. pr),
      GetUserSavedTracks = (\<lambda>token params. tr)\<rparr>"

definition exampleJson :: "string json" where
  "exampleJson = \<lparr>MarshalHeader = Inr ''{}'', MarshalIndent = (\<lambda>tracks. Inr tracks)\<rparr>"

text \<open>An entropy source that gives \<open>n\<close> bytes \<^verbatim>\<open>0xFF\<close>, and one that counts from 0.\<close>

definition onesSource :: "nat \<Rightarrow> go_error + byte list" where
  "onesSource n = Inr (replicate n 255)"

definition countingSource :: "nat \<Rightarrow> go_error + byte list" where
  "countingSource n = Inr (map of_nat [0..<n])"

section \<open>The branches of the callback handler\<close>

lemma callbackTracks_fails:
  "GetUserSavedTracks c token \<lparr>Limit = Some 50, Offset = Some 0, Market = Some ''us''\<rparr> = Inl e \<Longrightarrow>
   callbackTracks c j token =
     [CallGetUserSavedTracks token \<lparr>Limit = Some 50, Offset = Some 0, Market = Some ''us''\<rparr>,
      HttpError (Error e) 400]"
  by (simp add: callbackTracks_def Let_def StatusBadRequest_def)

lemma callbackTracks_succeeds:
  "GetUserSavedTracks c token \<lparr>Limit = Some 50, Offset = Some 0, Market = Some ''us''\<rparr> = Inr tracks \<Longrightarrow>
   callbackTracks c j token =
     [CallGetUserSavedTracks token \<lparr>Limit = Some 50, Offset = Some 0, Market = Some ''us''\<rparr>,
      Log ''getting user tracks''] @
     (case MarshalIndent j tracks of
        Inl err \<Rightarrow> [Print (Error err), Print []]
      | Inr b \<Rightarrow> [Print b])"
  by (simp add: callbackTracks_def Let_def)

lemma callbackProfile_fails:
  "GetUserProfileRequest c token = Inl e \<Longrightarrow>
   callbackProfile c j token =
     [LogToken token, Log ''query params?'', LogQuery,
      (case MarshalHeader j of
         Inl err \<Rightarrow> Log ''Could not Marshal Req Headers''
       | Inr reqHeadersBytes \<Rightarrow> Log reqHeadersBytes),
      CallGetUserProfile token, HttpError (Error e) 400]"
  by (simp add: callbackProfile_def StatusBadRequest_def)

lemma callbackProfile_succeeds:
  "GetUserProfileRequest c token = Inr user \<Longrightarrow>
   callbackProfile c j token =
     [LogToken token, Log ''query params?'', LogQuery,
      (case MarshalHeader j of
         Inl err \<Rightarrow> Log ''Could not Marshal Req Headers''
       | Inr reqHeadersBytes \<Rightarrow> Log reqHeadersBytes),
      CallGetUserProfile token, Log ''getting user'', LogUser user] @
     callbackTracks c j token"
  by (simp add: callbackProfile_def)

lemma callbackExchange_fails:
  "Exchange c (FormValue r ''code'') = Inl e \<Longrightarrow>
   callbackExchange c j r =
     [Log (''code='' @ FormValue r ''code''), CallExchange (FormValue r ''code''),
      Log (''error converting auth code into token; '' @ Error e),
      HttpError (Error e) 400]"
  by (simp add: callbackExchange_def Let_def StatusBadRequest_def)

lemma callbackExchange_succeeds:
  "Exchange c (FormValue r ''code'') = Inr token \<Longrightarrow>
   callbackExchange c j r =
     [Log (''code='' @ FormValue r ''code''), CallExchange (FormValue r ''code'')] @
     callbackProfile c j token"
  by (simp add: callbackExchange_def Let_def)

lemma callback_denied:
  "FormValue r ''error'' \<noteq> [] \<Longrightarrow>
   callback c j r =
     [Log (''user authorization failed. Reason='' @ FormValue r ''error''),
      Redirect ''/'' 307]"
  by (simp add: callback_def StatusTemporaryRedirect_def)

lemma callback_no_cookie:
  "FormValue r ''error'' = [] \<Longrightarrow> Cookie r stateCookieName = Inl ErrNoCookie \<Longrightarrow>
   callback c j r =
     [Log ''Error finding cookie:  http: named cookie not present'',
      Redirect ''/'' 401,
      HttpError ''http: named cookie not present'' 400]"
  by (simp add: callback_def StatusUnauthorized_def StatusBadRequest_def)

lemma callback_cookie_fault:
  "FormValue r ''error'' = [] \<Longrightarrow> Cookie r stateCookieName = Inl err \<Longrightarrow>
   err \<noteq> ErrNoCookie \<Longrightarrow>
   callback c j r = [HttpError (Error err) 400]"
  by (simp add: callback_def StatusBadRequest_def)

lemma callback_mismatch:
  "FormValue r ''error'' = [] \<Longrightarrow> Cookie r stateCookieName = Inr ck \<Longrightarrow>
   FormValue r ''state'' \<noteq> Value ck \<Longrightarrow>
   callback c j r =
     [Log (Name ck @ ''='' @ Value ck @ [CHR 0x0D]),
      Log ''invalid oauth2 spotify state. state_mismatch err'',
      Redirect ''/'' 401]"
  by (simp add: callback_def StatusUnauthorized_def)

lemma callback_match:
  "FormValue r ''error'' = [] \<Longrightarrow> Cookie r stateCookieName = Inr ck \<Longrightarrow>
   FormValue r ''state'' = Value ck \<Longrightarrow>
   callback c j r =
     Log (Name ck @ ''='' @ Value ck @ [CHR 0x0D]) # callbackExchange c j r"
  by (simp add: callback_def)

text \<open>The four ways through the provider operations, for a request that passed the checks.\<close>

lemma callback_exchange_failed:
  assumes "FormValue r ''error'' = []" and "Cookie r stateCookieName = Inr ck"
    and "FormValue r ''state'' = Value ck"
    and "Exchange c (FormValue r ''code'') = Inl e"
  shows "callback c j r =
     [Log (Name ck @ ''='' @ Value ck @ [CHR 0x0D]),
      Log (''code='' @ FormValue r ''code''), CallExchange (FormValue r ''code''),
      Log (''error converting auth code into token; '' @ Error e),
      HttpError (Error e) 400]"
  using assms by (simp add: callback_match callbackExchange_fails)

lemma callback_profile_failed:
  assumes "FormValue r ''error'' = []" and "Cookie r stateCookieName = Inr ck"
    and "FormValue r ''state'' = Value ck"
    and "Exchange c (FormValue r ''code'') = Inr token"
    and "GetUserProfileRequest c token = Inl e"
  shows "callback c j r =
     [Log (Name ck @ ''='' @ Value ck @ [CHR 0x0D]),
      Log (''code='' @ FormValue r ''code''), CallExchange (FormValue r ''code''),
      LogToken token, Log ''query params?'', LogQuery,
      (case MarshalHeader j of
         Inl err \<Rightarrow> Log ''Could not Marshal Req Headers''
       | Inr reqHeadersBytes \<Rightarrow> Log reqHeadersBytes),
      CallGetUserProfile token, HttpError (Error e) 400]"
  using assms
  by (simp add: callback_match callbackExchange_succeeds callbackProfile_fails)

lemma callback_tracks_failed:
  assumes "FormValue r ''error'' = []" and "Cookie r stateCookieName = Inr ck"
    and "FormValue r ''state'' = Value ck"
    and "Exchange c (FormValue r ''code'') = Inr token"
    and "GetUserProfileRequest c token = Inr user"
    and "GetUserSavedTracks c token
           \<lparr>Limit = Some 50, Offset = Some 0, Market = Some ''us''\<rparr> = Inl e"
  shows "callback c j r =
     [Log (Name ck @ ''='' @ Value ck @ [CHR 0x0D]),
      Log (''code='' @ FormValue r ''code''), CallExchange (FormValue r ''code''),
      LogToken token, Log ''query params?'', LogQuery,
      (case MarshalHeader j of
         Inl err \<Rightarrow> Log ''Could not Marshal Req Headers''
       | Inr reqHeadersBytes \<Rightarrow> Log reqHeadersBytes),
      CallGetUserProfile token, Log ''getting user'', LogUser user,
      CallGetUserSavedTracks token
        \<lparr>Limit = Some 50, Offset = Some 0, Market = Some ''us''\<rparr>,
      HttpError (Error e) 400]"
  using assms
  by (simp add: callback_match callbackExchange_succeeds callbackProfile_succeeds
      callbackTracks_fails)

lemma callback_tracks_fetched:
  assumes "FormValue r ''error'' = []" and "Cookie r stateCookieName = Inr ck"
    and "FormValue r ''state'' = Value ck"
    and "Exchange c (FormValue r ''code'') = Inr token"
    and "GetUserProfileRequest c token = Inr user"
    and "GetUserSavedTracks c token
           \<lparr>Limit = Some 50, Offset = Some 0, Market = Some ''us''\<rparr> = Inr tracks"
  shows "callback c j r =
     [Log (Name ck @ ''='' @ Value ck @ [CHR 0x0D]),
      Log (''code='' @ FormValue r ''code''), CallExchange (FormValue r ''code''),
      LogToken token, Log ''query params?'', LogQuery,
      (case MarshalHeader j of
         Inl err \<Rightarrow> Log ''Could not Marshal Req Headers''
       | Inr reqHeadersBytes \<Rightarrow> Log reqHeadersBytes),
      CallGetUserProfile token, Log ''getting user'', LogUser user,
      CallGetUserSavedTracks token
        \<lparr>Limit = Some 50, Offset = Some 0, Market = Some ''us''\<rparr>,
      Log ''getting user tracks''] @
     (case MarshalIndent j tracks of
        Inl err \<Rightarrow> [Print (Error err), Print []]
      | Inr b \<Rightarrow> [Print b])"
  using assms
  by (simp add: callback_match callbackExchange_succeeds callbackProfile_succeeds
      callbackTracks_succeeds)

lemma header_log_not_provider:
  "\<not> isProviderCall (case m of Inl err \<Rightarrow> Log a | Inr b \<Rightarrow> Log b)"
  by (cases m) simp_all

lemma header_log_not_write:
  "\<not> isResponseWrite (case m of Inl err \<Rightarrow> Log a | Inr b \<Rightarrow> Log b)"
  by (cases m) simp_all

lemma header_log_no_status:
  "statusWritten (case m of Inl err \<Rightarrow> Log a | Inr b \<Rightarrow> Log b) = None"
  by (cases m) simp_all

lemma prints_not_provider:
  "filter isProviderCall
     (case m of Inl err \<Rightarrow> [Print (Error err), Print []] | Inr b \<Rightarrow> [Print b]) = []"
  by (cases m) simp_all

lemma prints_not_write:
  "filter isResponseWrite
     (case m of Inl err \<Rightarrow> [Print (Error err), Print []] | Inr b \<Rightarrow> [Print b]) = []"
  by (cases m) simp_all

lemma prints_no_status:
  "responseStatus
     (case m of Inl err \<Rightarrow> [Print (Error err), Print []] | Inr b \<Rightarrow> [Print b]) = None"
  by (cases m) simp_all

lemmas trace_facts =
  header_log_not_provider header_log_not_write header_log_no_status
  prints_not_provider prints_not_write prints_no_status

section \<open>The example requests\<close>

lemma deniedRequest_error: "FormValue deniedRequest ''error'' = ''access_denied''"
  by (simp add: deniedRequest_def FormValue_def exampleRequest_def)

lemma noCookieRequest_facts:
  "FormValue noCookieRequest ''error'' = []"
  "Cookie noCookieRequest stateCookieName = Inl ErrNoCookie"
  by (simp_all add: noCookieRequest_def FormValue_def exampleRequest_def stateCookieName_def)

lemma mismatchRequest_facts:
  "FormValue mismatchRequest ''error'' = []"
  "Cookie mismatchRequest stateCookieName = Inr exampleCookie"
  "FormValue mismatchRequest ''state'' = ''WRONG''"
  by (simp_all add: mismatchRequest_def FormValue_def exampleRequest_def stateCookieName_def)

lemma goodRequest_facts:
  "FormValue goodRequest ''error'' = []"
  "Cookie goodRequest stateCookieName = Inr exampleCookie"
  "FormValue goodRequest ''state'' = ''ABC123''"
  "FormValue goodRequest ''code'' = ''XYZ''"
  by (simp_all add: goodRequest_def FormValue_def exampleRequest_def stateCookieName_def)

lemma exampleCookie_facts:
  "Name exampleCookie = ''oauthState''" "Value exampleCookie = ''ABC123''"
  by (simp_all add: exampleCookie_def)

lemma goodRequest_passes: "passesChecks goodRequest exampleCookie"
  by (simp add: passesChecks_def goodRequest_facts exampleCookie_facts)

lemma exampleClient_facts:
  "Exchange (exampleClient ex pr tr) code = ex"
  "GetUserProfileRequest (exampleClient ex pr tr) token = pr"
  "GetUserSavedTracks (exampleClient ex pr tr) token params = tr"
  by (simp_all add: exampleClient_def)

section \<open>Provider denial\<close>

text \<open>
  C2. A callback request with a non-empty provider \<^verbatim>\<open>error\<close> parameter is answered
  by a log line and a 307 redirect to home, and by nothing else: the token exchange
  and the two API calls are not made, whatever the \<^verbatim>\<open>code\<close> and \<^verbatim>\<open>state\<close>
  parameters, the cookie and the provider client are.
\<close>

theorem callback_provider_denied:
  assumes "FormValue r ''error'' \<noteq> []"
  shows "callback c j r =
           [Log (''user authorization failed. Reason='' @ FormValue r ''error''),
            Redirect ''/'' 307]
         \<and> providerCalls (callback c j r) = []
         \<and> CallExchange code \<notin> set (callback c j r)
         \<and> responseWrites (callback c j r) = [Redirect ''/'' 307]"
  using assms by (simp add: callback_denied providerCalls_def responseWrites_def)

theorem callback_provider_denied_witness:
  "FormValue (exampleRequest
       [(''error'', ''access_denied''), (''state'', ''ABC123''), (''code'', ''XYZ'')]
       (Inr exampleCookie)) ''error'' \<noteq> []
   \<and> callback (exampleClient (Inr ''tok'') (Inr ''usr'') (Inr ''page'')) exampleJson
       (exampleRequest
          [(''error'', ''access_denied''), (''state'', ''ABC123''), (''code'', ''XYZ'')]
          (Inr exampleCookie)) =
     [Log ''user authorization failed. Reason=access_denied'', Redirect ''/'' 307]
   \<and> CallExchange ''XYZ'' \<notin> set (callback
       (exampleClient (Inr ''tok'') (Inr ''usr'') (Inr ''page'')) exampleJson
       (exampleRequest
          [(''error'', ''access_denied''), (''state'', ''ABC123''), (''code'', ''XYZ'')]
          (Inr exampleCookie)))"
proof -
  let ?r = "exampleRequest
       [(''error'', ''access_denied''), (''state'', ''ABC123''), (''code'', ''XYZ'')]
       (Inr exampleCookie)"
  have denied: "FormValue ?r ''error'' \<noteq> []"
    by (simp add: FormValue_def exampleRequest_def)
  have val: "FormValue ?r ''error'' = ''access_denied''"
    by (simp add: FormValue_def exampleRequest_def)
  from callback_provider_denied [OF denied,
      where c = "exampleClient (Inr ''tok'') (Inr ''usr'') (Inr ''page'')"
        and j = exampleJson and code = "''XYZ''"] denied
  show ?thesis
    by (simp add: val)
qed

section \<open>The state check\<close>

text \<open>
  C1. The comparison of the \<^verbatim>\<open>state\<close> parameter with the cookie's value is equality
  of strings, character by character and case-sensitive. For a callback request
  whose state cookie is read: when the \<^verbatim>\<open>state\<close> parameter differs from the
  cookie's value, neither the token exchange nor an API is called, and (the request
  carrying no provider error, which is answered first) the handler logs the
  mismatch and redirects to home with status 401; when the two are equal and there
  is no provider error the handler goes on to the token exchange.
\<close>

theorem callback_state_mismatch:
  assumes "Cookie r stateCookieName = Inr ck"
  shows "(FormValue r ''state'' \<noteq> Value ck \<longrightarrow>
            providerCalls (callback c j r) = []
            \<and> (FormValue r ''error'' = [] \<longrightarrow>
                 callback c j r =
                   [Log (Name ck @ ''='' @ Value ck @ [CHR 0x0D]),
                    Log ''invalid oauth2 spotify state. state_mismatch err'',
                    Redirect ''/'' 401]))
       \<and> (FormValue r ''state'' = Value ck \<and> FormValue r ''error'' = [] \<longrightarrow>
            CallExchange (FormValue r ''code'') \<in> set (callback c j r))"
proof (intro conjI impI; (elim conjE)?)
  assume differs: "FormValue r ''state'' \<noteq> Value ck"
  show "providerCalls (callback c j r) = []"
  proof (cases "FormValue r ''error'' = []")
    case True
    show ?thesis
      by (simp add: callback_mismatch [OF True assms differs] providerCalls_def)
  next
    case False
    show ?thesis
      by (simp add: callback_denied [OF False] providerCalls_def)
  qed
  assume "FormValue r ''error'' = []"
  from this assms differs show "callback c j r =
      [Log (Name ck @ ''='' @ Value ck @ [CHR 0x0D]),
       Log ''invalid oauth2 spotify state. state_mismatch err'',
       Redirect ''/'' 401]"
    by (rule callback_mismatch)
next
  assume "FormValue r ''state'' = Value ck" and "FormValue r ''error'' = []"
  with assms have "callback c j r =
      Log (Name ck @ ''='' @ Value ck @ [CHR 0x0D]) # callbackExchange c j r"
    by (simp add: callback_match)
  then show "CallExchange (FormValue r ''code'') \<in> set (callback c j r)"
    by (simp add: callbackExchange_def Let_def)
qed

theorem callback_state_mismatch_witness:
  "Cookie (exampleRequest [(''state'', ''abc123''), (''code'', ''XYZ'')] (Inr exampleCookie))
     stateCookieName = Inr exampleCookie
   \<and> FormValue (exampleRequest [(''state'', ''abc123''), (''code'', ''XYZ'')] (Inr exampleCookie))
       ''state'' \<noteq> Value exampleCookie
   \<and> FormValue (exampleRequest [(''state'', ''abc123''), (''code'', ''XYZ'')] (Inr exampleCookie))
       ''error'' = []
   \<and> callback (exampleClient (Inr ''tok'') (Inr ''usr'') (Inr ''page'')) exampleJson
       (exampleRequest [(''state'', ''abc123''), (''code'', ''XYZ'')] (Inr exampleCookie)) =
     [Log (''oauthState=ABC123'' @ [CHR 0x0D]),
      Log ''invalid oauth2 spotify state. state_mismatch err'',
      Redirect ''/'' 401]
   \<and> providerCalls (callback (exampleClient (Inr ''tok'') (Inr ''usr'') (Inr ''page''))
       exampleJson
       (exampleRequest [(''state'', ''abc123''), (''code'', ''XYZ'')] (Inr exampleCookie))) = []
   \<and> FormValue goodRequest ''state'' = Value exampleCookie
   \<and> CallExchange ''XYZ'' \<in> set (callback
       (exampleClient (Inr ''tok'') (Inr ''usr'') (Inr ''page'')) exampleJson goodRequest)"
proof -
  let ?bad = "exampleRequest [(''state'', ''abc123''), (''code'', ''XYZ'')] (Inr exampleCookie)"
  let ?c = "exampleClient (Inr ''tok'') (Inr ''usr'') (Inr ''page'')"
  have bad: "Cookie ?bad stateCookieName = Inr exampleCookie"
    "FormValue ?bad ''state'' \<noteq> Value exampleCookie" "FormValue ?bad ''error'' = []"
    by (simp_all add: FormValue_def exampleRequest_def exampleCookie_def stateCookieName_def)
  have good: "FormValue goodRequest ''state'' = Value exampleCookie"
    by (simp add: goodRequest_facts exampleCookie_facts)
  from callback_state_mismatch [OF bad(1), where c = ?c and j = exampleJson] bad(2,3)
  have one: "callback ?c exampleJson ?bad =
     [Log (''oauthState=ABC123'' @ [CHR 0x0D]),
      Log ''invalid oauth2 spotify state. state_mismatch err'',
      Redirect ''/'' 401]
     \<and> providerCalls (callback ?c exampleJson ?bad) = []"
    by (simp add: exampleCookie_facts providerCalls_def)
  from callback_state_mismatch [OF goodRequest_facts(2), where c = ?c and j = exampleJson]
    good goodRequest_facts(1)
  have two: "CallExchange ''XYZ'' \<in> set (callback ?c exampleJson goodRequest)"
    by (simp add: goodRequest_facts)
  from bad good one two show ?thesis by blast
qed

section \<open>The missing state cookie\<close>

text \<open>
  C3. When the read of the state cookie fails, neither the token exchange nor an
  API is called. For a callback request that carries no provider error (which is
  answered first): the handler logs the missing cookie and redirects to home with
  status 401 exactly when the read of the state cookie fails with
  \<^verbatim>\<open>ErrNoCookie\<close>, whatever the \<^verbatim>\<open>state\<close> parameter is; the response then has
  status 401, and its first write is that redirect. A cookie read that fails with
  any other error is answered by a 400 error alone.
\<close>

theorem callback_state_missing:
  "(Cookie r stateCookieName = Inl err \<longrightarrow> providerCalls (callback c j r) = [])
   \<and> (FormValue r ''error'' = [] \<longrightarrow>
        (take 2 (callback c j r) =
           [Log ''Error finding cookie:  http: named cookie not present'',
            Redirect ''/'' 401])
        = (Cookie r stateCookieName = Inl ErrNoCookie))
   \<and> (FormValue r ''error'' = [] \<and> Cookie r stateCookieName = Inl ErrNoCookie \<longrightarrow>
        responseStatus (callback c j r) = Some 401
        \<and> hd (responseWrites (callback c j r)) = Redirect ''/'' 401)
   \<and> (FormValue r ''error'' = [] \<and> Cookie r stateCookieName = Inl err \<and>
       err \<noteq> ErrNoCookie \<longrightarrow>
        callback c j r = [HttpError (Error err) 400]
        \<and> responseStatus (callback c j r) = Some 400)"
proof (intro conjI impI; (elim conjE)?)
  assume fails: "Cookie r stateCookieName = Inl err"
  show "providerCalls (callback c j r) = []"
  proof (cases "FormValue r ''error'' = []")
    case False
    show ?thesis by (simp add: callback_denied [OF False] providerCalls_def)
  next
    case True
    show ?thesis
    proof (cases "err = ErrNoCookie")
      case True
      with \<open>FormValue r ''error'' = []\<close> fails show ?thesis
        by (simp add: callback_no_cookie providerCalls_def)
    next
      case False
      with \<open>FormValue r ''error'' = []\<close> fails show ?thesis
        by (simp add: callback_cookie_fault providerCalls_def)
    qed
  qed
next
  assume noerr: "FormValue r ''error'' = []"
  show "(take 2 (callback c j r) =
            [Log ''Error finding cookie:  http: named cookie not present'',
             Redirect ''/'' 401])
         = (Cookie r stateCookieName = Inl ErrNoCookie)"
  proof (cases "Cookie r stateCookieName")
    case (Inl e)
    show ?thesis
    proof (cases "e = ErrNoCookie")
      case True
      with Inl noerr show ?thesis by (simp add: callback_no_cookie)
    next
      case False
      with Inl noerr show ?thesis by (simp add: callback_cookie_fault)
    qed
  next
    case (Inr ck)
    show ?thesis
    proof (cases "FormValue r ''state'' = Value ck")
      case True
      with Inr noerr show ?thesis
        by (simp add: callback_match callbackExchange_def Let_def)
    next
      case False
      with Inr noerr show ?thesis by (simp add: callback_mismatch)
    qed
  qed
next
  assume "FormValue r ''error'' = []" "Cookie r stateCookieName = Inl ErrNoCookie"
  note tr = callback_no_cookie [OF this]
  show "responseStatus (callback c j r) = Some 401" by (simp add: tr)
  show "hd (responseWrites (callback c j r)) = Redirect ''/'' 401"
    by (simp add: tr responseWrites_def)
next
  assume "FormValue r ''error'' = []" "Cookie r stateCookieName = Inl err"
    "err \<noteq> ErrNoCookie"
  note tr = callback_cookie_fault [OF this]
  show "callback c j r = [HttpError (Error err) 400]" by (rule tr)
  show "responseStatus (callback c j r) = Some 400" by (simp add: tr)
qed

theorem callback_state_missing_witness:
  "FormValue noCookieRequest ''error'' = []
   \<and> Cookie noCookieRequest stateCookieName = Inl ErrNoCookie
   \<and> FormValue noCookieRequest ''state'' = ''ABC123''
   \<and> providerCalls (callback (exampleClient (Inr ''tok'') (Inr ''usr'') (Inr ''page''))
       exampleJson noCookieRequest) = []
   \<and> take 2 (callback (exampleClient (Inr ''tok'') (Inr ''usr'') (Inr ''page''))
       exampleJson noCookieRequest) =
     [Log ''Error finding cookie:  http: named cookie not present'', Redirect ''/'' 401]
   \<and> responseStatus (callback (exampleClient (Inr ''tok'') (Inr ''usr'') (Inr ''page''))
       exampleJson noCookieRequest) = Some 401
   \<and> Cookie (exampleRequest [(''state'', ''ABC123''), (''code'', ''XYZ'')]
       (Inl (GoError ''malformed cookie header''))) stateCookieName =
     Inl (GoError ''malformed cookie header'')
   \<and> callback (exampleClient (Inr ''tok'') (Inr ''usr'') (Inr ''page'')) exampleJson
       (exampleRequest [(''state'', ''ABC123''), (''code'', ''XYZ'')]
          (Inl (GoError ''malformed cookie header''))) =
     [HttpError ''malformed cookie header'' 400]"
proof -
  let ?c = "exampleClient (Inr ''tok'') (Inr ''usr'') (Inr ''page'')"
  let ?fault = "exampleRequest [(''state'', ''ABC123''), (''code'', ''XYZ'')]
       (Inl (GoError ''malformed cookie header''))"
  have st: "FormValue noCookieRequest ''state'' = ''ABC123''"
    by (simp add: noCookieRequest_def FormValue_def exampleRequest_def)
  have fault: "FormValue ?fault ''error'' = []"
    "Cookie ?fault stateCookieName = Inl (GoError ''malformed cookie header'')"
    by (simp_all add: FormValue_def exampleRequest_def stateCookieName_def)
  from callback_state_missing
      [where r = noCookieRequest and c = ?c and j = exampleJson and err = ErrNoCookie]
    noCookieRequest_facts
  have one: "providerCalls (callback ?c exampleJson noCookieRequest) = []
    \<and> take 2 (callback ?c exampleJson noCookieRequest) =
     [Log ''Error finding cookie:  http: named cookie not present'', Redirect ''/'' 401]
    \<and> responseStatus (callback ?c exampleJson noCookieRequest) = Some 401"
    by blast
  from callback_state_missing
      [where r = ?fault and c = ?c and j = exampleJson
        and err = "GoError ''malformed cookie header''"]
    fault
  have two: "callback ?c exampleJson ?fault = [HttpError ''malformed cookie header'' 400]"
    by simp
  from noCookieRequest_facts st fault one two show ?thesis by blast
qed

text \<open>
  C9. When the read of the state cookie fails with \<^verbatim>\<open>ErrNoCookie\<close> (and the request
  carries no provider error), the handler does not stop after the 401 redirect: it
  goes on to write the 400 error with the cookie error's message, so both writes
  are made for the one request.
\<close>

theorem callback_no_cookie_falls_through:
  assumes "FormValue r ''error'' = []" and "Cookie r stateCookieName = Inl ErrNoCookie"
  shows "callback c j r =
           [Log ''Error finding cookie:  http: named cookie not present'',
            Redirect ''/'' 401,
            HttpError ''http: named cookie not present'' 400]
         \<and> responseWrites (callback c j r) =
           [Redirect ''/'' 401, HttpError ''http: named cookie not present'' 400]"
  using assms by (simp add: callback_no_cookie responseWrites_def)

theorem callback_no_cookie_falls_through_witness:
  "FormValue (exampleRequest [(''code'', ''XYZ'')] (Inl ErrNoCookie)) ''error'' = []
   \<and> Cookie (exampleRequest [(''code'', ''XYZ'')] (Inl ErrNoCookie)) stateCookieName =
     Inl ErrNoCookie
   \<and> responseWrites (callback (exampleClient (Inr ''tok'') (Inr ''usr'') (Inr ''page''))
       exampleJson (exampleRequest [(''code'', ''XYZ'')] (Inl ErrNoCookie))) =
     [Redirect ''/'' 401, HttpError ''http: named cookie not present'' 400]"
proof -
  let ?r = "exampleRequest [(''code'', ''XYZ'')] (Inl ErrNoCookie)"
  have h: "FormValue ?r ''error'' = []" "Cookie ?r stateCookieName = Inl ErrNoCookie"
    by (simp_all add: FormValue_def exampleRequest_def stateCookieName_def)
  from callback_no_cookie_falls_through [OF h,
      where c = "exampleClient (Inr ''tok'') (Inr ''usr'') (Inr ''page'')"
      and j = exampleJson] h
  show ?thesis by (simp add: responseWrites_def)
qed

section \<open>Response statuses of the callback\<close>

text \<open>
  C4, as amended. The callback answers a provider denial with a 307 redirect to
  home. On a state mismatch and on a missing state cookie the redirect to home is
  written with status 401, not 307, and 401 is the status of the response. When the
  token exchange, the profile fetch or the saved-tracks fetch fails, the response
  is the 400 error with the failure's message.
\<close>

theorem callback_response_status:
  "(FormValue r ''error'' \<noteq> [] \<longrightarrow>
      responseStatus (callback c j r) = Some 307
      \<and> responseWrites (callback c j r) = [Redirect ''/'' 307])
   \<and> (FormValue r ''error'' = [] \<and> Cookie r stateCookieName = Inr ck \<and>
       FormValue r ''state'' \<noteq> Value ck \<longrightarrow>
      responseStatus (callback c j r) = Some 401
      \<and> responseWrites (callback c j r) = [Redirect ''/'' 401])
   \<and> (FormValue r ''error'' = [] \<and> Cookie r stateCookieName = Inl ErrNoCookie \<longrightarrow>
      responseStatus (callback c j r) = Some 401
      \<and> hd (responseWrites (callback c j r)) = Redirect ''/'' 401)
   \<and> (passesChecks r ck \<and> Exchange c (FormValue r ''code'') = Inl e \<longrightarrow>
      responseStatus (callback c j r) = Some 400
      \<and> responseWrites (callback c j r) = [HttpError (Error e) 400])
   \<and> (passesChecks r ck \<and> Exchange c (FormValue r ''code'') = Inr token \<and>
       GetUserProfileRequest c token = Inl e \<longrightarrow>
      responseStatus (callback c j r) = Some 400
      \<and> responseWrites (callback c j r) = [HttpError (Error e) 400])
   \<and> (passesChecks r ck \<and> Exchange c (FormValue r ''code'') = Inr token \<and>
       GetUserProfileRequest c token = Inr user \<and>
       GetUserSavedTracks c token
         \<lparr>Limit = Some 50, Offset = Some 0, Market = Some ''us''\<rparr> = Inl e \<longrightarrow>
      responseStatus (callback c j r) = Some 400
      \<and> responseWrites (callback c j r) = [HttpError (Error e) 400])"
proof (intro conjI impI; (elim conjE)?)
  assume "FormValue r ''error'' \<noteq> []"
  note tr = callback_denied [OF this]
  show "responseStatus (callback c j r) = Some 307" by (simp add: tr)
  show "responseWrites (callback c j r) = [Redirect ''/'' 307]"
    by (simp add: tr responseWrites_def)
next
  assume "FormValue r ''error'' = []" "Cookie r stateCookieName = Inr ck"
    "FormValue r ''state'' \<noteq> Value ck"
  note tr = callback_mismatch [OF this]
  show "responseStatus (callback c j r) = Some 401" by (simp add: tr)
  show "responseWrites (callback c j r) = [Redirect ''/'' 401]"
    by (simp add: tr responseWrites_def)
next
  assume "FormValue r ''error'' = []" "Cookie r stateCookieName = Inl ErrNoCookie"
  note tr = callback_no_cookie [OF this]
  show "responseStatus (callback c j r) = Some 401" by (simp add: tr)
  show "hd (responseWrites (callback c j r)) = Redirect ''/'' 401"
    by (simp add: tr responseWrites_def)
next
  assume "passesChecks r ck" "Exchange c (FormValue r ''code'') = Inl e"
  then have tr: "callback c j r =
     [Log (Name ck @ ''='' @ Value ck @ [CHR 0x0D]),
      Log (''code='' @ FormValue r ''code''), CallExchange (FormValue r ''code''),
      Log (''error converting auth code into token; '' @ Error e),
      HttpError (Error e) 400]"
    by (simp add: passesChecks_def callback_exchange_failed)
  show "responseStatus (callback c j r) = Some 400" by (simp add: tr)
  show "responseWrites (callback c j r) = [HttpError (Error e) 400]"
    by (simp add: tr responseWrites_def)
next
  assume "passesChecks r ck" "Exchange c (FormValue r ''code'') = Inr token"
    "GetUserProfileRequest c token = Inl e"
  then have tr: "callback c j r =
     [Log (Name ck @ ''='' @ Value ck @ [CHR 0x0D]),
      Log (''code='' @ FormValue r ''code''), CallExchange (FormValue r ''code''),
      LogToken token, Log ''query params?'', LogQuery,
      (case MarshalHeader j of
         Inl err \<Rightarrow> Log ''Could not Marshal Req Headers''
       | Inr reqHeadersBytes \<Rightarrow> Log reqHeadersBytes),
      CallGetUserProfile token, HttpError (Error e) 400]"
    by (simp add: passesChecks_def callback_profile_failed)
  show "responseStatus (callback c j r) = Some 400" by (simp add: tr trace_facts)
  show "responseWrites (callback c j r) = [HttpError (Error e) 400]"
    by (simp add: tr responseWrites_def trace_facts)
next
  assume "passesChecks r ck" "Exchange c (FormValue r ''code'') = Inr token"
    "GetUserProfileRequest c token = Inr user"
    "GetUserSavedTracks c token
       \<lparr>Limit = Some 50, Offset = Some 0, Market = Some ''us''\<rparr> = Inl e"
  then have tr: "callback c j r =
     [Log (Name ck @ ''='' @ Value ck @ [CHR 0x0D]),
      Log (''code='' @ FormValue r ''code''), CallExchange (FormValue r ''code''),
      LogToken token, Log ''query params?'', LogQuery,
      (case MarshalHeader j of
         Inl err \<Rightarrow> Log ''Could not Marshal Req Headers''
       | Inr reqHeadersBytes \<Rightarrow> Log reqHeadersBytes),
      CallGetUserProfile token, Log ''getting user'', LogUser user,
      CallGetUserSavedTracks token
        \<lparr>Limit = Some 50, Offset = Some 0, Market = Some ''us''\<rparr>,
      HttpError (Error e) 400]"
    by (simp add: passesChecks_def callback_tracks_failed)
  show "responseStatus (callback c j r) = Some 400" by (simp add: tr trace_facts)
  show "responseWrites (callback c j r) = [HttpError (Error e) 400]"
    by (simp add: tr responseWrites_def trace_facts)
qed

theorem callback_response_status_witness:
  "FormValue deniedRequest ''error'' \<noteq> []
   \<and> responseStatus (callback (exampleClient (Inr ''tok'') (Inr ''usr'') (Inr ''page''))
       exampleJson deniedRequest) = Some 307
   \<and> FormValue mismatchRequest ''state'' \<noteq> Value exampleCookie
   \<and> responseWrites (callback (exampleClient (Inr ''tok'') (Inr ''usr'') (Inr ''page''))
       exampleJson mismatchRequest) = [Redirect ''/'' 401]
   \<and> Cookie noCookieRequest stateCookieName = Inl ErrNoCookie
   \<and> responseStatus (callback (exampleClient (Inr ''tok'') (Inr ''usr'') (Inr ''page''))
       exampleJson noCookieRequest) = Some 401
   \<and> passesChecks goodRequest exampleCookie
   \<and> responseWrites (callback
       (exampleClient (Inl (GoError ''invalid_grant'')) (Inr ''usr'') (Inr ''page''))
       exampleJson goodRequest) = [HttpError ''invalid_grant'' 400]
   \<and> responseWrites (callback
       (exampleClient (Inr ''tok'') (Inl (GoError ''no profile'')) (Inr ''page''))
       exampleJson goodRequest) = [HttpError ''no profile'' 400]
   \<and> responseWrites (callback
       (exampleClient (Inr ''tok'') (Inr ''usr'') (Inl (GoError ''no tracks'')))
       exampleJson goodRequest) = [HttpError ''no tracks'' 400]"
proof -
  have denied: "FormValue deniedRequest ''error'' \<noteq> []"
    by (simp add: deniedRequest_error)
  have differs: "FormValue mismatchRequest ''state'' \<noteq> Value exampleCookie"
    by (simp add: mismatchRequest_facts exampleCookie_facts)
  note ok = goodRequest_passes
  from callback_response_status
      [where r = deniedRequest and j = exampleJson
        and c = "exampleClient (Inr ''tok'') (Inr ''usr'') (Inr ''page'')"]
    denied
  have one: "responseStatus (callback (exampleClient (Inr ''tok'') (Inr ''usr'') (Inr ''page''))
       exampleJson deniedRequest) = Some 307"
    by blast
  from callback_response_status
      [where r = mismatchRequest and j = exampleJson and ck = exampleCookie
        and c = "exampleClient (Inr ''tok'') (Inr ''usr'') (Inr ''page'')"]
    differs mismatchRequest_facts(1,2)
  have two: "responseWrites (callback (exampleClient (Inr ''tok'') (Inr ''usr'') (Inr ''page''))
       exampleJson mismatchRequest) = [Redirect ''/'' 401]"
    by blast
  from callback_response_status
      [where r = noCookieRequest and j = exampleJson
        and c = "exampleClient (Inr ''tok'') (Inr ''usr'') (Inr ''page'')"]
    noCookieRequest_facts
  have three: "responseStatus (callback (exampleClient (Inr ''tok'') (Inr ''usr'') (Inr ''page''))
       exampleJson noCookieRequest) = Some 401"
    by blast
  from callback_response_status
      [where r = goodRequest and j = exampleJson and ck = exampleCookie
        and e = "GoError ''invalid_grant''"
        and c = "exampleClient (Inl (GoError ''invalid_grant'')) (Inr ''usr'') (Inr ''page'')"]
    ok
  have four: "responseWrites (callback
       (exampleClient (Inl (GoError ''invalid_grant'')) (Inr ''usr'') (Inr ''page''))
       exampleJson goodRequest) = [HttpError ''invalid_grant'' 400]"
    by (simp add: exampleClient_facts)
  from callback_response_status
      [where r = goodRequest and j = exampleJson and ck = exampleCookie
        and e = "GoError ''no profile''" and token = "''tok''"
        and c = "exampleClient (Inr ''tok'') (Inl (GoError ''no profile'')) (Inr ''page'')"]
    ok
  have five: "responseWrites (callback
       (exampleClient (Inr ''tok'') (Inl (GoError ''no profile'')) (Inr ''page''))
       exampleJson goodRequest) = [HttpError ''no profile'' 400]"
    by (simp add: exampleClient_facts)
  from callback_response_status
      [where r = goodRequest and j = exampleJson and ck = exampleCookie
        and e = "GoError ''no tracks''" and token = "''tok''" and user = "''usr''"
        and c = "exampleClient (Inr ''tok'') (Inr ''usr'') (Inl (GoError ''no tracks''))"]
    ok
  have six: "responseWrites (callback
       (exampleClient (Inr ''tok'') (Inr ''usr'') (Inl (GoError ''no tracks'')))
       exampleJson goodRequest) = [HttpError ''no tracks'' 400]"
    by (simp add: exampleClient_facts)
  from denied differs noCookieRequest_facts(2) ok one two three four five six
  show ?thesis by blast
qed

text \<open>
  The claim as stated fails: on a state mismatch, and on a missing state cookie, the
  status of the response is 401 and not 307.
\<close>

theorem callback_status_307_counterexample:
  "FormValue mismatchRequest ''error'' = []
   \<and> Cookie mismatchRequest stateCookieName = Inr exampleCookie
   \<and> FormValue mismatchRequest ''state'' \<noteq> Value exampleCookie
   \<and> responseStatus (callback (exampleClient (Inr ''tok'') (Inr ''usr'') (Inr ''page''))
       exampleJson mismatchRequest) \<noteq> Some 307
   \<and> responseStatus (callback (exampleClient (Inr ''tok'') (Inr ''usr'') (Inr ''page''))
       exampleJson mismatchRequest) = Some 401
   \<and> FormValue noCookieRequest ''error'' = []
   \<and> Cookie noCookieRequest stateCookieName = Inl ErrNoCookie
   \<and> responseStatus (callback (exampleClient (Inr ''tok'') (Inr ''usr'') (Inr ''page''))
       exampleJson noCookieRequest) \<noteq> Some 307
   \<and> responseStatus (callback (exampleClient (Inr ''tok'') (Inr ''usr'') (Inr ''page''))
       exampleJson noCookieRequest) = Some 401"
proof -
  have differs: "FormValue mismatchRequest ''state'' \<noteq> Value exampleCookie"
    by (simp add: mismatchRequest_facts exampleCookie_facts)
  have "callback (exampleClient (Inr ''tok'') (Inr ''usr'') (Inr ''page''))
       exampleJson mismatchRequest =
     [Log (Name exampleCookie @ ''='' @ Value exampleCookie @ [CHR 0x0D]),
      Log ''invalid oauth2 spotify state. state_mismatch err'',
      Redirect ''/'' 401]"
    using mismatchRequest_facts(1,2) differs by (rule callback_mismatch)
  then have one: "responseStatus (callback
       (exampleClient (Inr ''tok'') (Inr ''usr'') (Inr ''page''))
       exampleJson mismatchRequest) = Some 401"
    by simp
  have "callback (exampleClient (Inr ''tok'') (Inr ''usr'') (Inr ''page''))
       exampleJson noCookieRequest =
     [Log ''Error finding cookie:  http: named cookie not present'',
      Redirect ''/'' 401,
      HttpError ''http: named cookie not present'' 400]"
    using noCookieRequest_facts by (rule callback_no_cookie)
  then have two: "responseStatus (callback
       (exampleClient (Inr ''tok'') (Inr ''usr'') (Inr ''page''))
       exampleJson noCookieRequest) = Some 401"
    by simp
  from one two differs mismatchRequest_facts(1,2) noCookieRequest_facts
  show ?thesis by simp
qed

section \<open>The order of the provider operations\<close>

text \<open>
  C6. In every run of the callback the calls to the provider are an initial part of
  the sequence exchange, profile fetch, saved-tracks fetch, the two fetches being
  given the token the exchange returned. For a request that passed the checks: a
  step that fails ends the run with the 400 error carrying that step's error
  message as the only write of the response, and no later step is called; when
  all three succeed, all three are called, in this order.
\<close>

theorem callback_sequential:
  "(\<exists>token rest.
      [CallExchange (FormValue r ''code''), CallGetUserProfile token,
       CallGetUserSavedTracks token
         \<lparr>Limit = Some 50, Offset = Some 0, Market = Some ''us''\<rparr>] =
      providerCalls (callback c j r) @ rest)
   \<and> (passesChecks r ck \<and> Exchange c (FormValue r ''code'') = Inl e \<longrightarrow>
      providerCalls (callback c j r) = [CallExchange (FormValue r ''code'')]
      \<and> last (callback c j r) = HttpError (Error e) 400
      \<and> responseWrites (callback c j r) = [HttpError (Error e) 400])
   \<and> (passesChecks r ck \<and> Exchange c (FormValue r ''code'') = Inr tok \<and>
       GetUserProfileRequest c tok = Inl e \<longrightarrow>
      providerCalls (callback c j r) =
        [CallExchange (FormValue r ''code''), CallGetUserProfile tok]
      \<and> last (callback c j r) = HttpError (Error e) 400
      \<and> responseWrites (callback c j r) = [HttpError (Error e) 400])
   \<and> (passesChecks r ck \<and> Exchange c (FormValue r ''code'') = Inr tok \<and>
       GetUserProfileRequest c tok = Inr user \<and>
       GetUserSavedTracks c tok
         \<lparr>Limit = Some 50, Offset = Some 0, Market = Some ''us''\<rparr> = Inl e \<longrightarrow>
      providerCalls (callback c j r) =
        [CallExchange (FormValue r ''code''), CallGetUserProfile tok,
         CallGetUserSavedTracks tok
           \<lparr>Limit = Some 50, Offset = Some 0, Market = Some ''us''\<rparr>]
      \<and> last (callback c j r) = HttpError (Error e) 400
      \<and> responseWrites (callback c j r) = [HttpError (Error e) 400])
   \<and> (passesChecks r ck \<and> Exchange c (FormValue r ''code'') = Inr tok \<and>
       GetUserProfileRequest c tok = Inr user \<and>
       GetUserSavedTracks c tok
         \<lparr>Limit = Some 50, Offset = Some 0, Market = Some ''us''\<rparr> = Inr tracks \<longrightarrow>
      providerCalls (callback c j r) =
        [CallExchange (FormValue r ''code''), CallGetUserProfile tok,
         CallGetUserSavedTracks tok
           \<lparr>Limit = Some 50, Offset = Some 0, Market = Some ''us''\<rparr>])"
  (is "?initial \<and> ?exchange \<and> ?profile \<and> ?tracks \<and> ?all")
proof -
  have exchange: ?exchange
    by (auto simp: passesChecks_def callback_exchange_failed providerCalls_def
        responseWrites_def)
  have profile: ?profile
    by (auto simp: passesChecks_def callback_profile_failed providerCalls_def
        responseWrites_def trace_facts)
  have tracks: ?tracks
    by (auto simp: passesChecks_def callback_tracks_failed providerCalls_def
        responseWrites_def trace_facts)
  have all: ?all
    by (auto simp: passesChecks_def callback_tracks_fetched providerCalls_def trace_facts)
  have initial: ?initial
  proof (cases "FormValue r ''error'' = []")
    case False
    then show ?thesis by (simp add: callback_denied providerCalls_def)
  next
    case noerr: True
    show ?thesis
    proof (cases "Cookie r stateCookieName")
      case (Inl err)
      with noerr show ?thesis
        by (cases "err = ErrNoCookie")
          (simp_all add: callback_no_cookie callback_cookie_fault providerCalls_def)
    next
      case (Inr k)
      show ?thesis
      proof (cases "FormValue r ''state'' = Value k")
        case False
        with noerr Inr show ?thesis by (simp add: callback_mismatch providerCalls_def)
      next
        case True
        note pre = noerr Inr True
        show ?thesis
        proof (cases "Exchange c (FormValue r ''code'')")
          case (Inl e1)
          then show ?thesis
            by (simp add: callback_exchange_failed [OF pre] providerCalls_def)
        next
          case ex: (Inr t)
          show ?thesis
          proof (cases "GetUserProfileRequest c t")
            case (Inl e2)
            with ex show ?thesis
              by (simp add: callback_profile_failed [OF pre] providerCalls_def trace_facts)
          next
            case pr: (Inr u)
            show ?thesis
            proof (cases "GetUserSavedTracks c t
                \<lparr>Limit = Some 50, Offset = Some 0, Market = Some ''us''\<rparr>")
              case (Inl e3)
              with ex pr show ?thesis
                by (simp add: callback_tracks_failed [OF pre] providerCalls_def trace_facts)
            next
              case (Inr p)
              with ex pr show ?thesis
                by (simp add: callback_tracks_fetched [OF pre] providerCalls_def trace_facts)
            qed
          qed
        qed
      qed
    qed
  qed
  from initial exchange profile tracks all show ?thesis by blast
qed

theorem callback_sequential_witness:
  "passesChecks goodRequest exampleCookie
   \<and> providerCalls (callback
       (exampleClient (Inl (GoError ''invalid_grant'')) (Inr ''usr'') (Inr ''page''))
       exampleJson goodRequest) = [CallExchange ''XYZ'']
   \<and> last (callback
       (exampleClient (Inl (GoError ''invalid_grant'')) (Inr ''usr'') (Inr ''page''))
       exampleJson goodRequest) = HttpError ''invalid_grant'' 400
   \<and> providerCalls (callback
       (exampleClient (Inr ''tok'') (Inl (GoError ''no profile'')) (Inr ''page''))
       exampleJson goodRequest) = [CallExchange ''XYZ'', CallGetUserProfile ''tok'']
   \<and> last (callback
       (exampleClient (Inr ''tok'') (Inl (GoError ''no profile'')) (Inr ''page''))
       exampleJson goodRequest) = HttpError ''no profile'' 400
   \<and> providerCalls (callback
       (exampleClient (Inr ''tok'') (Inr ''usr'') (Inl (GoError ''no tracks'')))
       exampleJson goodRequest) =
     [CallExchange ''XYZ'', CallGetUserProfile ''tok'',
      CallGetUserSavedTracks ''tok''
        \<lparr>Limit = Some 50, Offset = Some 0, Market = Some ''us''\<rparr>]
   \<and> last (callback
       (exampleClient (Inr ''tok'') (Inr ''usr'') (Inl (GoError ''no tracks'')))
       exampleJson goodRequest) = HttpError ''no tracks'' 400
   \<and> providerCalls (callback
       (exampleClient (Inr ''tok'') (Inr ''usr'') (Inr ''page''))
       exampleJson goodRequest) =
     [CallExchange ''XYZ'', CallGetUserProfile ''tok'',
      CallGetUserSavedTracks ''tok''
        \<lparr>Limit = Some 50, Offset = Some 0, Market = Some ''us''\<rparr>]"
proof -
  note ok = goodRequest_passes
  from callback_sequential
      [where r = goodRequest and j = exampleJson and ck = exampleCookie
        and e = "GoError ''invalid_grant''"
        and c = "exampleClient (Inl (GoError ''invalid_grant'')) (Inr ''usr'') (Inr ''page'')"]
    ok
  have one: "providerCalls (callback
       (exampleClient (Inl (GoError ''invalid_grant'')) (Inr ''usr'') (Inr ''page''))
       exampleJson goodRequest) = [CallExchange ''XYZ'']
     \<and> last (callback
       (exampleClient (Inl (GoError ''invalid_grant'')) (Inr ''usr'') (Inr ''page''))
       exampleJson goodRequest) = HttpError ''invalid_grant'' 400"
    by (simp add: exampleClient_facts goodRequest_facts)
  from callback_sequential
      [where r = goodRequest and j = exampleJson and ck = exampleCookie
        and e = "GoError ''no profile''" and tok = "''tok''"
        and c = "exampleClient (Inr ''tok'') (Inl (GoError ''no profile'')) (Inr ''page'')"]
    ok
  have two: "providerCalls (callback
       (exampleClient (Inr ''tok'') (Inl (GoError ''no profile'')) (Inr ''page''))
       exampleJson goodRequest) = [CallExchange ''XYZ'', CallGetUserProfile ''tok'']
     \<and> last (callback
       (exampleClient (Inr ''tok'') (Inl (GoError ''no profile'')) (Inr ''page''))
       exampleJson goodRequest) = HttpError ''no profile'' 400"
    by (simp add: exampleClient_facts goodRequest_facts)
  from callback_sequential
      [where r = goodRequest and j = exampleJson and ck = exampleCookie
        and e = "GoError ''no tracks''" and tok = "''tok''" and user = "''usr''"
        and c = "exampleClient (Inr ''tok'') (Inr ''usr'') (Inl (GoError ''no tracks''))"]
    ok
  have three: "providerCalls (callback
       (exampleClient (Inr ''tok'') (Inr ''usr'') (Inl (GoError ''no tracks'')))
       exampleJson goodRequest) =
     [CallExchange ''XYZ'', CallGetUserProfile ''tok'',
      CallGetUserSavedTracks ''tok''
        \<lparr>Limit = Some 50, Offset = Some 0, Market = Some ''us''\<rparr>]
     \<and> last (callback
       (exampleClient (Inr ''tok'') (Inr ''usr'') (Inl (GoError ''no tracks'')))
       exampleJson goodRequest) = HttpError ''no tracks'' 400"
    by (simp add: exampleClient_facts goodRequest_facts)
  from callback_sequential
      [where r = goodRequest and j = exampleJson and ck = exampleCookie
        and tok = "''tok''" and user = "''usr''" and tracks = "''page''"
        and c = "exampleClient (Inr ''tok'') (Inr ''usr'') (Inr ''page'')"]
    ok
  have four: "providerCalls (callback
       (exampleClient (Inr ''tok'') (Inr ''usr'') (Inr ''page''))
       exampleJson goodRequest) =
     [CallExchange ''XYZ'', CallGetUserProfile ''tok'',
      CallGetUserSavedTracks ''tok''
        \<lparr>Limit = Some 50, Offset = Some 0, Market = Some ''us''\<rparr>]"
    by (simp add: exampleClient_facts goodRequest_facts)
  from ok one two three four show ?thesis by blast
qed

section \<open>The success path\<close>

text \<open>
  C8. For a request that passed the checks, once the exchange and the profile fetch
  have succeeded, the saved-tracks fetch is called, once, with limit 50, offset 0
  and market \<^verbatim>\<open>us\<close>. When it succeeds too, the handler only logs the profile and
  prints the page (or the error of its JSON encoding) on standard output: it calls
  nothing on the response writer, so no status, header or body of the response
  comes from the handler.
\<close>

theorem callback_success_path:
  assumes "passesChecks r ck"
    and "Exchange c (FormValue r ''code'') = Inr token"
    and "GetUserProfileRequest c token = Inr user"
  shows "filter (\<lambda>e. \<exists>t q. e = CallGetUserSavedTracks t q) (callback c j r) =
           [CallGetUserSavedTracks token
              \<lparr>Limit = Some 50, Offset = Some 0, Market = Some ''us''\<rparr>]
         \<and> (GetUserSavedTracks c token
              \<lparr>Limit = Some 50, Offset = Some 0, Market = Some ''us''\<rparr> = Inr tracks \<longrightarrow>
            responseWrites (callback c j r) = []
            \<and> responseStatus (callback c j r) = None
            \<and> callback c j r =
               [Log (Name ck @ ''='' @ Value ck @ [CHR 0x0D]),
                Log (''code='' @ FormValue r ''code''), CallExchange (FormValue r ''code''),
                LogToken token, Log ''query params?'', LogQuery,
                (case MarshalHeader j of
                   Inl err \<Rightarrow> Log ''Could not Marshal Req Headers''
                 | Inr reqHeadersBytes \<Rightarrow> Log reqHeadersBytes),
                CallGetUserProfile token, Log ''getting user'', LogUser user,
                CallGetUserSavedTracks token
                  \<lparr>Limit = Some 50, Offset = Some 0, Market = Some ''us''\<rparr>,
                Log ''getting user tracks''] @
               (case MarshalIndent j tracks of
                  Inl err \<Rightarrow> [Print (Error err), Print []]
                | Inr b \<Rightarrow> [Print b]))"
proof -
  from assms(1) have pre: "FormValue r ''error'' = []" "Cookie r stateCookieName = Inr ck"
    "FormValue r ''state'' = Value ck"
    by (simp_all add: passesChecks_def)
  have hdr: "\<not> (\<exists>t q. (case m of Inl err \<Rightarrow> Log a | Inr b \<Rightarrow> Log b) =
      (CallGetUserSavedTracks t q :: ('a, 'b, 'c) effect))" for m :: "go_error + string" and a
    by (cases m) simp_all
  have prt: "filter (\<lambda>e. \<exists>t q. e = (CallGetUserSavedTracks t q :: ('a, 'b, 'c) effect))
      (case m of Inl err \<Rightarrow> [Print (Error err), Print []] | Inr b \<Rightarrow> [Print b]) = []"
    for m :: "go_error + string"
    by (cases m) simp_all
  have once: "filter (\<lambda>e. \<exists>t q. e = CallGetUserSavedTracks t q) (callback c j r) =
           [CallGetUserSavedTracks token
              \<lparr>Limit = Some 50, Offset = Some 0, Market = Some ''us''\<rparr>]"
  proof (cases "GetUserSavedTracks c token
      \<lparr>Limit = Some 50, Offset = Some 0, Market = Some ''us''\<rparr>")
    case (Inl e)
    show ?thesis
      by (simp add: callback_tracks_failed [OF pre assms(2,3) Inl] hdr)
  next
    case (Inr p)
    show ?thesis
      by (simp add: callback_tracks_fetched [OF pre assms(2,3) Inr] hdr prt)
  qed
  have quiet: "responseWrites (callback c j r) = [] \<and> responseStatus (callback c j r) = None"
    if "GetUserSavedTracks c token
      \<lparr>Limit = Some 50, Offset = Some 0, Market = Some ''us''\<rparr> = Inr tracks"
    by (simp add: callback_tracks_fetched [OF pre assms(2,3) that] responseWrites_def
        trace_facts)
  from once quiet callback_tracks_fetched [OF pre assms(2,3)] show ?thesis by blast
qed

theorem callback_success_path_witness:
  "passesChecks goodRequest exampleCookie
   \<and> Exchange (exampleClient (Inr ''tok'') (Inr ''usr'') (Inr ''page''))
       (FormValue goodRequest ''code'') = Inr ''tok''
   \<and> GetUserProfileRequest (exampleClient (Inr ''tok'') (Inr ''usr'') (Inr ''page''))
       ''tok'' = Inr ''usr''
   \<and> GetUserSavedTracks (exampleClient (Inr ''tok'') (Inr ''usr'') (Inr ''page'')) ''tok''
       \<lparr>Limit = Some 50, Offset = Some 0, Market = Some ''us''\<rparr> = Inr ''page''
   \<and> responseWrites (callback (exampleClient (Inr ''tok'') (Inr ''usr'') (Inr ''page''))
       exampleJson goodRequest) = []
   \<and> callback (exampleClient (Inr ''tok'') (Inr ''usr'') (Inr ''page''))
       exampleJson goodRequest =
     [Log (''oauthState=ABC123'' @ [CHR 0x0D]), Log ''code=XYZ'', CallExchange ''XYZ'',
      LogToken ''tok'', Log ''query params?'', LogQuery, Log ''{}'',
      CallGetUserProfile ''tok'', Log ''getting user'', LogUser ''usr'',
      CallGetUserSavedTracks ''tok''
        \<lparr>Limit = Some 50, Offset = Some 0, Market = Some ''us''\<rparr>,
      Log ''getting user tracks'', Print ''page'']"
proof -
  let ?c = "exampleClient (Inr ''tok'') (Inr ''usr'') (Inr ''page'')"
  have ex: "Exchange ?c (FormValue goodRequest ''code'') = Inr ''tok''"
    and pr: "GetUserProfileRequest ?c ''tok'' = Inr ''usr''"
    and tr: "GetUserSavedTracks ?c ''tok''
       \<lparr>Limit = Some 50, Offset = Some 0, Market = Some ''us''\<rparr> = Inr ''page''"
    by (simp_all add: exampleClient_facts)
  from callback_success_path [OF goodRequest_passes ex pr, where j = exampleJson
      and tracks = "''page''"] tr
  have "responseWrites (callback ?c exampleJson goodRequest) = []
    \<and> callback ?c exampleJson goodRequest =
     [Log (''oauthState=ABC123'' @ [CHR 0x0D]), Log ''code=XYZ'', CallExchange ''XYZ'',
      LogToken ''tok'', Log ''query params?'', LogQuery, Log ''{}'',
      CallGetUserProfile ''tok'', Log ''getting user'', LogUser ''usr'',
      CallGetUserSavedTracks ''tok''
        \<lparr>Limit = Some 50, Offset = Some 0, Market = Some ''us''\<rparr>,
      Log ''getting user tracks'', Print ''page'']"
    by (simp add: goodRequest_facts exampleCookie_facts exampleJson_def responseWrites_def)
  with goodRequest_passes ex pr tr show ?thesis by blast
qed

section \<open>Logout\<close>

text \<open>
  C10. For every request the logout handler sets the header \<^verbatim>\<open>Location\<close> to
  \<^verbatim>\<open>/\<close> and writes status 307, and does nothing else: it sets no cookie, and calls
  none of the provider's operations.
\<close>

theorem logout_redirects_home:
  "logout r = [HeaderSet ''Location'' ''/'', WriteHeader 307]
   \<and> responseStatus (logout r) = Some 307
   \<and> (\<forall>ck. SetCookie ck \<notin> set (logout r))
   \<and> providerCalls (logout r) = []"
  by (simp add: logout_def StatusTemporaryRedirect_def providerCalls_def)

section \<open>Base64 and the state token\<close>

lemma Encode_length: "length (Encode bs) = 4 * ((length bs + 2) div 3)"
proof (induction bs rule: Encode.induct)
  case (1 b0 b1 b2 src)
  have "(length src + 5) div 3 = (length src + 2) div 3 + 1" by presburger
  with 1 show ?case by (simp add: Let_def add.commute)
qed (simp_all add: Let_def)

lemma encode_mem: "encode (x AND 0x3F) \<in> set encodeStd"
proof -
  have "unat (x AND 0x3F) \<le> unat (0x3F :: 64 word)"
    by (rule word_and_le1 [THEN word_le_nat_alt [THEN iffD1]])
  then have "unat (x AND 0x3F) < length encodeStd"
    by (simp add: encodeStd_def)
  then show ?thesis
    unfolding encode_def by (rule nth_mem)
qed

lemma Encode_alphabet: "set (Encode bs) \<subseteq> set encodeStd \<union> {padChar}"
  by (induction bs rule: Encode.induct) (simp_all add: Let_def encode_mem)

lemma Encode_empty: "Encode bs = [] \<longleftrightarrow> bs = []"
  by (induction bs rule: Encode.induct) (simp_all add: Let_def)

lemma Encode_last_pad: "length bs mod 3 \<noteq> 0 \<Longrightarrow> last (Encode bs) = padChar"
proof (induction bs rule: Encode.induct)
  case (1 b0 b1 b2 src)
  then have "length src mod 3 \<noteq> 0" by (simp add: mod_Suc split: if_splits)
  moreover from this have "Encode src \<noteq> []" by (auto simp: Encode_empty)
  ultimately show ?case using 1 by (simp add: Let_def)
qed (simp_all add: Let_def)

lemma padChar_escaped: "shouldEscape padChar"
  by (simp add: shouldEscape_def padChar_def)

lemma Encode_32_length: "length bs = 32 \<Longrightarrow> length (Encode bs) = 44"
  by (simp add: Encode_length)

lemma Encode_32_pad: "length bs = 32 \<Longrightarrow> last (Encode bs) = padChar"
  by (rule Encode_last_pad) simp

lemma Encode_32_escaped:
  assumes "length bs = 32"
  shows "\<not> urlSafe (Encode bs)"
proof -
  from assms have "length (Encode bs) = 44" by (rule Encode_32_length)
  then have "Encode bs \<noteq> []" by auto
  then have "last (Encode bs) \<in> set (Encode bs)" by (rule last_in_set)
  with Encode_32_pad [OF assms] padChar_escaped show ?thesis
    by (auto simp: urlSafe_def list_all_iff)
qed

text \<open>The test vectors of RFC 4648, section 10.\<close>

lemma Encode_rfc4648:
  "Encode [] = []"
  "Encode [0x66] = ''Zg==''"
  "Encode [0x66, 0x6F] = ''Zm8=''"
  "Encode [0x66, 0x6F, 0x6F] = ''Zm9v''"
  "Encode [0x66, 0x6F, 0x6F, 0x62] = ''Zm9vYg==''"
  "Encode [0x66, 0x6F, 0x6F, 0x62, 0x61] = ''Zm9vYmE=''"
  "Encode [0x66, 0x6F, 0x6F, 0x62, 0x61, 0x72] = ''Zm9vYmFy''"
  by code_simp+

lemma Encode_ones:
  "Encode (replicate 32 255) = ''//////////////////////////////////////////8=''"
  by code_simp

lemma Encode_counting:
  "Encode (map of_nat [0..<32]) = ''AAECAwQFBgcICQoLDA0ODxAREhMUFRYXGBkaGxwdHh8=''"
  by code_simp

text \<open>
  C5, as amended. Whenever the state token generator returns, its result is the
  base64 encoding, in the standard alphabet \<^verbatim>\<open>A-Z a-z 0-9 + /\<close> with \<^verbatim>\<open>=\<close> padding,
  of the bytes read from the random source; for the 32 bytes it asks for, a string
  of 44 characters that ends in \<^verbatim>\<open>=\<close>. It is not URL-safe: the padding \<^verbatim>\<open>=\<close>
  always has to be escaped in a URL, as \<^verbatim>\<open>+\<close> and \<^verbatim>\<open>/\<close> have when they occur.
\<close>

theorem genRandState_base64:
  assumes "snd (genRandState randRead) = Some state"
  shows "\<exists>bytes. randRead 32 = Inr bytes \<and> state = EncodeToString bytes
           \<and> set state \<subseteq> set encodeStd \<union> {padChar}
           \<and> (length bytes = 32 \<longrightarrow>
                length state = 44 \<and> last state = padChar \<and> \<not> urlSafe state)"
proof (cases "randRead 32")
  case (Inl err)
  with assms show ?thesis by (simp add: genRandState_def)
next
  case (Inr bytes)
  with assms have st: "state = Encode bytes"
    by (simp add: genRandState_def EncodeToString_def)
  have "set state \<subseteq> set encodeStd \<union> {padChar}"
    unfolding st by (rule Encode_alphabet)
  moreover have "length bytes = 32 \<longrightarrow>
      length state = 44 \<and> last state = padChar \<and> \<not> urlSafe state"
    unfolding st
    using Encode_32_length [of bytes] Encode_32_pad [of bytes] Encode_32_escaped [of bytes]
    by blast
  moreover have "state = EncodeToString bytes"
    by (simp add: st EncodeToString_def)
  ultimately show ?thesis using Inr by blast
qed

theorem genRandState_base64_witness:
  "snd (genRandState countingSource :: (string, string, string) effect list \<times> string option) =
     Some ''AAECAwQFBgcICQoLDA0ODxAREhMUFRYXGBkaGxwdHh8=''
   \<and> countingSource 32 = Inr (map of_nat [0..<32])
   \<and> length (map of_nat [0..<32] :: byte list) = 32
   \<and> length ''AAECAwQFBgcICQoLDA0ODxAREhMUFRYXGBkaGxwdHh8='' = 44
   \<and> \<not> urlSafe ''AAECAwQFBgcICQoLDA0ODxAREhMUFRYXGBkaGxwdHh8=''"
proof -
  have src: "countingSource 32 = Inr (map of_nat [0..<32])"
    by (simp add: countingSource_def)
  have ret: "snd (genRandState countingSource ::
      (string, string, string) effect list \<times> string option) =
     Some ''AAECAwQFBgcICQoLDA0ODxAREhMUFRYXGBkaGxwdHh8=''"
    by (simp add: genRandState_def src EncodeToString_def Encode_counting)
  have len: "length (map of_nat [0..<32] :: byte list) = 32" by simp
  from genRandState_base64 [OF ret] obtain bytes where
    b: "countingSource 32 = Inr bytes"
    and imp: "length bytes = 32 \<longrightarrow>
      length ''AAECAwQFBgcICQoLDA0ODxAREhMUFRYXGBkaGxwdHh8='' = 44
      \<and> last ''AAECAwQFBgcICQoLDA0ODxAREhMUFRYXGBkaGxwdHh8='' = padChar
      \<and> \<not> urlSafe ''AAECAwQFBgcICQoLDA0ODxAREhMUFRYXGBkaGxwdHh8=''"
    by blast
  from b src have "bytes = map of_nat [0..<32]" by simp
  with len have "length bytes = 32" by simp
  with imp
  have "length ''AAECAwQFBgcICQoLDA0ODxAREhMUFRYXGBkaGxwdHh8='' = 44
    \<and> \<not> urlSafe ''AAECAwQFBgcICQoLDA0ODxAREhMUFRYXGBkaGxwdHh8=''"
    by blast
  with ret src len show ?thesis by blast
qed

text \<open>
  The claim as stated fails: on 32 bytes \<^verbatim>\<open>0xFF\<close> the token is made of \<^verbatim>\<open>/\<close>
  characters and ends in \<^verbatim>\<open>8=\<close>.
\<close>

theorem genRandState_url_safe_counterexample:
  "snd (genRandState onesSource :: (string, string, string) effect list \<times> string option) =
     Some ''//////////////////////////////////////////8=''
   \<and> CHR ''/'' \<in> set ''//////////////////////////////////////////8=''
   \<and> \<not> urlSafe ''//////////////////////////////////////////8=''"
proof -
  have "snd (genRandState onesSource ::
      (string, string, string) effect list \<times> string option) =
     Some ''//////////////////////////////////////////8=''"
    by (simp add: genRandState_def onesSource_def EncodeToString_def Encode_ones)
  moreover have "\<not> urlSafe ''//////////////////////////////////////////8=''"
    by (simp add: urlSafe_def shouldEscape_def)
  moreover have "CHR ''/'' \<in> set ''//////////////////////////////////////////8=''"
    by simp
  ultimately show ?thesis by blast
qed

section \<open>The token determines the bytes read\<close>

lemma distinct_encodeStd: "distinct encodeStd"
  by (simp add: encodeStd_def)

lemma padChar_not_encodeStd: "padChar \<notin> set encodeStd"
  by (simp add: encodeStd_def padChar_def)

lemma sextet_bound: "unat (x AND (0x3F :: 64 word)) < 64"
proof -
  have "unat (x AND 0x3F) \<le> unat (0x3F :: 64 word)"
    by (rule word_and_le1 [THEN word_le_nat_alt [THEN iffD1]])
  then show ?thesis by simp
qed

lemma encode_inject:
  assumes "encode (x AND 0x3F) = encode (y AND 0x3F)"
  shows "x AND 0x3F = y AND 0x3F"
proof -
  have len: "length encodeStd = 64" by (simp add: encodeStd_def)
  from assms have "unat (x AND 0x3F) = unat (y AND 0x3F)"
    unfolding encode_def
    using nth_eq_iff_index_eq [OF distinct_encodeStd,
        of "unat (x AND 0x3F)" "unat (y AND 0x3F)"]
      sextet_bound [of x] sextet_bound [of y] len
    by simp
  then show ?thesis by (simp add: word_unat_eq_iff)
qed

lemma byte_eqI:
  fixes x y :: byte
  assumes "bit x 0 = bit y 0" "bit x 1 = bit y 1" "bit x 2 = bit y 2" "bit x 3 = bit y 3"
    "bit x 4 = bit y 4" "bit x 5 = bit y 5" "bit x 6 = bit y 6" "bit x 7 = bit y 7"
  shows "x = y"
proof (rule bit_word_eqI)
  fix n assume "n < LENGTH(8)"
  then have "n = 0 \<or> n = 1 \<or> n = 2 \<or> n = 3 \<or> n = 4 \<or> n = 5 \<or> n = 6 \<or> n = 7"
    by simp arith
  with assms show "bit x n = bit y n" by (elim disjE) simp_all
qed

lemma byte_high: "8 \<le> n \<Longrightarrow> \<not> bit (x :: byte) n"
  by (auto dest: bit_imp_le_length)

text \<open>
  The three bytes of a block, read back from its four groups of six bits (the
  shifts of the decoder of \<^verbatim>\<open>encoding/base64\<close>).
\<close>

lemma first_byte:
  fixes a b c :: byte
  shows "a = ucast
    (push_bit 2
       (drop_bit 18 (push_bit 16 (ucast a) OR push_bit 8 (ucast b) OR ucast c :: 64 word)
        AND 0x3F)
     OR drop_bit 4
       (drop_bit 12 (push_bit 16 (ucast a) OR push_bit 8 (ucast b) OR ucast c :: 64 word)
        AND 0x3F))"
  by (rule byte_eqI) (simp_all add: bit_simps byte_high)

lemma second_byte:
  fixes a b c :: byte
  shows "b = ucast
    (push_bit 4
       (drop_bit 12 (push_bit 16 (ucast a) OR push_bit 8 (ucast b) OR ucast c :: 64 word)
        AND 0x3F)
     OR drop_bit 2
       (drop_bit 6 (push_bit 16 (ucast a) OR push_bit 8 (ucast b) OR ucast c :: 64 word)
        AND 0x3F))"
  by (rule byte_eqI) (simp_all add: bit_simps byte_high)

lemma third_byte:
  fixes a b c :: byte
  shows "c = ucast
    (push_bit 6
       (drop_bit 6 (push_bit 16 (ucast a) OR push_bit 8 (ucast b) OR ucast c :: 64 word)
        AND 0x3F)
     OR ((push_bit 16 (ucast a) OR push_bit 8 (ucast b) OR ucast c :: 64 word) AND 0x3F))"
  by (rule byte_eqI) (simp_all add: bit_simps byte_high)

lemma block_inject:
  fixes a b c a' b' c' :: byte
  assumes "encode (drop_bit 18 (push_bit 16 (ucast a) OR push_bit 8 (ucast b) OR ucast c) AND 0x3F) =
           encode (drop_bit 18 (push_bit 16 (ucast a') OR push_bit 8 (ucast b') OR ucast c') AND 0x3F)"
    and "encode (drop_bit 12 (push_bit 16 (ucast a) OR push_bit 8 (ucast b) OR ucast c) AND 0x3F) =
         encode (drop_bit 12 (push_bit 16 (ucast a') OR push_bit 8 (ucast b') OR ucast c') AND 0x3F)"
  shows "a = a'"
    and "encode (drop_bit 6 (push_bit 16 (ucast a) OR push_bit 8 (ucast b) OR ucast c) AND 0x3F) =
         encode (drop_bit 6 (push_bit 16 (ucast a') OR push_bit 8 (ucast b') OR ucast c') AND 0x3F)
         \<Longrightarrow> b = b'"
    and "encode (drop_bit 6 (push_bit 16 (ucast a) OR push_bit 8 (ucast b) OR ucast c) AND 0x3F) =
         encode (drop_bit 6 (push_bit 16 (ucast a') OR push_bit 8 (ucast b') OR ucast c') AND 0x3F)
         \<Longrightarrow> encode ((push_bit 16 (ucast a) OR push_bit 8 (ucast b) OR ucast c) AND 0x3F) =
             encode ((push_bit 16 (ucast a') OR push_bit 8 (ucast b') OR ucast c') AND 0x3F)
         \<Longrightarrow> c = c'"
proof -
  let ?v = "push_bit 16 (ucast a) OR push_bit 8 (ucast b) OR ucast c :: 64 word"
  let ?w = "push_bit 16 (ucast a') OR push_bit 8 (ucast b') OR ucast c' :: 64 word"
  from assms(1) have s0: "drop_bit 18 ?v AND 0x3F = drop_bit 18 ?w AND 0x3F"
    by (rule encode_inject)
  from assms(2) have s1: "drop_bit 12 ?v AND 0x3F = drop_bit 12 ?w AND 0x3F"
    by (rule encode_inject)
  have "a = ucast (push_bit 2 (drop_bit 18 ?v AND 0x3F) OR drop_bit 4 (drop_bit 12 ?v AND 0x3F))"
    by (rule first_byte)
  also have "\<dots> = ucast (push_bit 2 (drop_bit 18 ?w AND 0x3F) OR drop_bit 4 (drop_bit 12 ?w AND 0x3F))"
    by (simp only: s0 s1)
  also have "\<dots> = a'" by (rule first_byte [symmetric])
  finally show "a = a'" .
  {
    assume "encode (drop_bit 6 ?v AND 0x3F) = encode (drop_bit 6 ?w AND 0x3F)"
    then have s2: "drop_bit 6 ?v AND 0x3F = drop_bit 6 ?w AND 0x3F"
      by (rule encode_inject)
    have "b = ucast (push_bit 4 (drop_bit 12 ?v AND 0x3F) OR drop_bit 2 (drop_bit 6 ?v AND 0x3F))"
      by (rule second_byte)
    also have "\<dots> = ucast (push_bit 4 (drop_bit 12 ?w AND 0x3F) OR drop_bit 2 (drop_bit 6 ?w AND 0x3F))"
      by (simp only: s1 s2)
    also have "\<dots> = b'" by (rule second_byte [symmetric])
    finally show "b = b'" .
    assume "encode (?v AND 0x3F) = encode (?w AND 0x3F)"
    then have s3: "?v AND 0x3F = ?w AND 0x3F"
      by (rule encode_inject)
    have "c = ucast (push_bit 6 (drop_bit 6 ?v AND 0x3F) OR (?v AND 0x3F))"
      by (rule third_byte)
    also have "\<dots> = ucast (push_bit 6 (drop_bit 6 ?w AND 0x3F) OR (?w AND 0x3F))"
      by (simp only: s2 s3)
    also have "\<dots> = c'" by (rule third_byte [symmetric])
    finally show "c = c'" .
  }
qed

lemma Encode_inject:
  "length bs = length bs' \<Longrightarrow> Encode bs = Encode bs' \<Longrightarrow> bs = bs'"
proof (induction bs arbitrary: bs' rule: Encode.induct)
  case (1 b0 b1 b2 src)
  from "1.prems"(1) obtain a0 a1 a2 src' where bs': "bs' = a0 # a1 # a2 # src'"
    by (cases bs'; cases "tl bs'"; cases "tl (tl bs')") auto
  from "1.prems"(2) have eqs:
    "encode (drop_bit 18 (push_bit 16 (ucast b0) OR push_bit 8 (ucast b1) OR ucast b2) AND 0x3F) =
     encode (drop_bit 18 (push_bit 16 (ucast a0) OR push_bit 8 (ucast a1) OR ucast a2) AND 0x3F)"
    "encode (drop_bit 12 (push_bit 16 (ucast b0) OR push_bit 8 (ucast b1) OR ucast b2) AND 0x3F) =
     encode (drop_bit 12 (push_bit 16 (ucast a0) OR push_bit 8 (ucast a1) OR ucast a2) AND 0x3F)"
    "encode (drop_bit 6 (push_bit 16 (ucast b0) OR push_bit 8 (ucast b1) OR ucast b2) AND 0x3F) =
     encode (drop_bit 6 (push_bit 16 (ucast a0) OR push_bit 8 (ucast a1) OR ucast a2) AND 0x3F)"
    "encode ((push_bit 16 (ucast b0) OR push_bit 8 (ucast b1) OR ucast b2) AND 0x3F) =
     encode ((push_bit 16 (ucast a0) OR push_bit 8 (ucast a1) OR ucast a2) AND 0x3F)"
    "Encode src = Encode src'"
    unfolding bs' by (simp_all add: Let_def)
  from "1.prems"(1) have "length src = length src'" by (simp add: bs')
  with eqs(5) "1.IH" have "src = src'" by blast
  moreover have "b0 = a0" using eqs(1,2) by (rule block_inject(1))
  moreover have "b1 = a1" using eqs(1,2,3) by (rule block_inject(2))
  moreover have "b2 = a2" using eqs(1,2,3,4) by (rule block_inject(3))
  ultimately show ?case by (simp add: bs')
next
  case (2 b0 b1)
  from "2.prems"(1) obtain a0 a1 where bs': "bs' = [a0, a1]"
    by (cases bs'; cases "tl bs'") auto
  from "2.prems"(2) have eqs:
    "encode (drop_bit 18 (push_bit 16 (ucast b0) OR push_bit 8 (ucast b1) OR ucast (0::byte)) AND 0x3F) =
     encode (drop_bit 18 (push_bit 16 (ucast a0) OR push_bit 8 (ucast a1) OR ucast (0::byte)) AND 0x3F)"
    "encode (drop_bit 12 (push_bit 16 (ucast b0) OR push_bit 8 (ucast b1) OR ucast (0::byte)) AND 0x3F) =
     encode (drop_bit 12 (push_bit 16 (ucast a0) OR push_bit 8 (ucast a1) OR ucast (0::byte)) AND 0x3F)"
    "encode (drop_bit 6 (push_bit 16 (ucast b0) OR push_bit 8 (ucast b1) OR ucast (0::byte)) AND 0x3F) =
     encode (drop_bit 6 (push_bit 16 (ucast a0) OR push_bit 8 (ucast a1) OR ucast (0::byte)) AND 0x3F)"
    unfolding bs' by (simp_all add: Let_def)
  have "b0 = a0" using eqs(1,2) by (rule block_inject(1))
  moreover have "b1 = a1" using eqs(1,2,3) by (rule block_inject(2))
  ultimately show ?case by (simp add: bs')
next
  case (3 b0)
  from "3.prems"(1) obtain a0 where bs': "bs' = [a0]"
    by (cases bs') auto
  from "3.prems"(2) have eqs:
    "encode (drop_bit 18 (push_bit 16 (ucast b0) OR push_bit 8 (ucast (0::byte)) OR ucast (0::byte)) AND 0x3F) =
     encode (drop_bit 18 (push_bit 16 (ucast a0) OR push_bit 8 (ucast (0::byte)) OR ucast (0::byte)) AND 0x3F)"
    "encode (drop_bit 12 (push_bit 16 (ucast b0) OR push_bit 8 (ucast (0::byte)) OR ucast (0::byte)) AND 0x3F) =
     encode (drop_bit 12 (push_bit 16 (ucast a0) OR push_bit 8 (ucast (0::byte)) OR ucast (0::byte)) AND 0x3F)"
    unfolding bs' by (simp_all add: Let_def)
  have "b0 = a0" using eqs(1,2) by (rule block_inject(1))
  then show ?case by (simp add: bs')
next
  case 4
  then show ?case by simp
qed

lemma Encode_plus:
  "Encode (replicate 32 0xFB) = ''+/v7+/v7+/v7+/v7+/v7+/v7+/v7+/v7+/v7+/v7+/s=''"
  by code_simp

section \<open>The consent URL\<close>

lemma hex_digit: "n < 16 \<Longrightarrow> unhex (upperhex ! n) = Some n"
proof -
  assume "n < 16"
  then have "n = 0 \<or> n = 1 \<or> n = 2 \<or> n = 3 \<or> n = 4 \<or> n = 5 \<or> n = 6 \<or> n = 7 \<or>
    n = 8 \<or> n = 9 \<or> n = 10 \<or> n = 11 \<or> n = 12 \<or> n = 13 \<or> n = 14 \<or> n = 15"
    by arith
  then show ?thesis
    by (elim disjE) (simp_all add: upperhex_def unhex_def)
qed

lemma of_char_bound: "(of_char c :: nat) < 256"
proof -
  have "(of_char c :: nat) mod 256 < 256" by (rule mod_less_divisor) simp
  then show ?thesis by simp
qed

lemma unescape_escapeChar:
  "QueryUnescape (escapeChar c @ s) = map_option (\<lambda>t. c # t) (QueryUnescape s)"
proof (cases "c = CHR '' ''")
  case True
  then show ?thesis by (simp add: escapeChar_def)
next
  case sp: False
  show ?thesis
  proof (cases "shouldEscape c")
    case True
    have hi: "of_char c div 16 < (16::nat)"
      using of_char_bound [of c] by arith
    have lo: "of_char c mod 16 < (16::nat)" by simp
    have rejoin: "char_of (of_char c div 16 * 16 + of_char c mod (16::nat)) = c"
      by simp
    from sp True show ?thesis
      by (simp add: escapeChar_def hex_digit [OF hi] hex_digit [OF lo] rejoin
          del: div_mult_mod_eq)
  next
    case False
    then have "c \<noteq> CHR ''%''" and "c \<noteq> CHR ''+''"
      by (auto simp: shouldEscape_def)
    with sp False show ?thesis
      by (simp add: escapeChar_def)
  qed
qed

lemma QueryUnescape_QueryEscape: "QueryUnescape (QueryEscape s) = Some s"
  by (induction s) (simp_all add: QueryEscape_def unescape_escapeChar)

lemma Join_snoc: "xs \<noteq> [] \<Longrightarrow> Join (xs @ [x]) sep = Join xs sep @ sep @ x"
  by (induction xs sep rule: Join.induct) simp_all

lemma EncodeValues_snoc:
  "v \<noteq> [] \<Longrightarrow>
   EncodeValues (v @ [(k, x)]) = EncodeValues v @ ''&'' @ QueryEscape k @ ''='' @ QueryEscape x"
  by (simp add: EncodeValues_def Join_snoc)

lemma authValues_state:
  "state \<noteq> [] \<Longrightarrow> \<exists>v. v \<noteq> [] \<and> authValues cfg state = v @ [(''state'', state)]"
  by (simp add: authValues_def)

lemma AuthCodeURL_state:
  assumes "state \<noteq> []"
  shows "\<exists>pre. AuthCodeURL cfg state = pre @ ''&state='' @ QueryEscape state"
proof -
  from assms obtain v where ne: "v \<noteq> []"
    and v: "authValues cfg state = v @ [(''state'', state)]"
    using authValues_state by blast
  have key: "QueryEscape ''state'' = ''state''"
    by (simp add: QueryEscape_def escapeChar_def shouldEscape_def)
  have "AuthCodeURL cfg state =
      (AuthURL cfg @ (if CHR ''?'' \<in> set (AuthURL cfg) then ''&'' else ''?'') @ EncodeValues v)
      @ ''&state='' @ QueryEscape state"
    by (simp add: AuthCodeURL_def v EncodeValues_snoc [OF ne] key)
  then show ?thesis by blast
qed

lemma exampleURL:
  "AuthCodeURL exampleConfig ''AAECAwQFBgcICQoLDA0ODxAREhMUFRYXGBkaGxwdHh8='' =
   ''https://accounts.spotify.com/authorize?client_id=id&redirect_uri=http%3A%2F%2Flocalhost%3A8080%2Fauth%2Fcallback&response_type=code&scope=user-library-read&state=AAECAwQFBgcICQoLDA0ODxAREhMUFRYXGBkaGxwdHh8%3D''"
  by code_simp

section \<open>Login\<close>

lemma auth_trace:
  assumes "randRead 32 = Inr bytes"
  shows "auth c randRead r =
           [LogContext, Log ''checking if user already has a cookie stored in their browser''] @
           (case Cookie r stateCookieName of
              Inl err \<Rightarrow> [Log (''we got no cookie in request, '' @ Error err), PrintCookie None]
            | Inr cookie \<Rightarrow> [PrintCookie (Some cookie)]) @
           [Log ''generating rand bytes'',
            SetCookie \<lparr>Name = ''oauthState'', Value = EncodeToString bytes, Path = ''/'',
              HttpOnly = True\<rparr>,
            Print (EncodeToString bytes),
            PrintHeader,
            Redirect (AuthCodeURL (Config c) (EncodeToString bytes)) 307]"
proof -
  have gen: "genRandState randRead =
      ([Log ''generating rand bytes''], Some (EncodeToString bytes))"
    by (simp add: genRandState_def assms)
  show ?thesis
    by (simp add: auth_def gen NewCookie_def stateCookieName_def StatusTemporaryRedirect_def)
qed

lemma auth_cookie_set:
  assumes "randRead 32 = Inr bytes" and "SetCookie ck \<in> set (auth c randRead r)"
  shows "Value ck = EncodeToString bytes"
  using assms(2)
  unfolding auth_trace [where randRead = randRead and bytes = bytes, OF assms(1)]
  by (cases "Cookie r stateCookieName") auto

text \<open>
  C7. For every request to \<^verbatim>\<open>GET /auth\<close>, when the random source gives its 32
  bytes: the handler generates the state from them, sets the cookie named
  \<^verbatim>\<open>oauthState\<close> to that state and redirects with status 307 to the consent URL
  built for that same state. These are its only two writes of the response. The
  URL ends in \<^verbatim>\<open>&state=\<close> followed by the escaped state, which unescapes to the
  cookie's value. The state is fresh as the bytes read are: it is a one-to-one
  encoding of them, so a run of the handler whose random source gives other 32
  bytes does not set this cookie.
\<close>

theorem auth_sets_cookie_and_redirects:
  fixes c :: "('t, 'u, 's) client"
  assumes "randRead 32 = Inr bytes" and "length bytes = 32"
  shows "auth c randRead r =
           [LogContext, Log ''checking if user already has a cookie stored in their browser''] @
           (case Cookie r stateCookieName of
              Inl err \<Rightarrow> [Log (''we got no cookie in request, '' @ Error err), PrintCookie None]
            | Inr cookie \<Rightarrow> [PrintCookie (Some cookie)]) @
           [Log ''generating rand bytes'',
            SetCookie \<lparr>Name = ''oauthState'', Value = EncodeToString bytes, Path = ''/'',
              HttpOnly = True\<rparr>,
            Print (EncodeToString bytes),
            PrintHeader,
            Redirect (AuthCodeURL (Config c) (EncodeToString bytes)) 307]
         \<and> responseWrites (auth c randRead r) =
           [SetCookie \<lparr>Name = ''oauthState'', Value = EncodeToString bytes, Path = ''/'',
              HttpOnly = True\<rparr>,
            Redirect (AuthCodeURL (Config c) (EncodeToString bytes)) 307]
         \<and> responseStatus (auth c randRead r) = Some 307
         \<and> (\<exists>pre. AuthCodeURL (Config c) (EncodeToString bytes) =
              pre @ ''&state='' @ QueryEscape (EncodeToString bytes))
         \<and> QueryUnescape (QueryEscape (EncodeToString bytes)) = Some (EncodeToString bytes)
         \<and> (\<forall>bytes'. length bytes' = 32 \<and> EncodeToString bytes' = EncodeToString bytes \<longrightarrow>
              bytes' = bytes)
         \<and> (\<forall>randRead' bytes' (c' :: ('t, 'u, 's) client) r'.
              randRead' 32 = Inr bytes' \<and> length bytes' = 32 \<and> bytes' \<noteq> bytes \<longrightarrow>
              SetCookie \<lparr>Name = ''oauthState'', Value = EncodeToString bytes, Path = ''/'',
                HttpOnly = True\<rparr> \<notin> set (auth c' randRead' r'))"
proof -
  note tr = auth_trace
      [where randRead = randRead and bytes = bytes and c = c and r = r, OF assms(1)]
  have writes: "responseWrites (auth c randRead r) =
           [SetCookie \<lparr>Name = ''oauthState'', Value = EncodeToString bytes, Path = ''/'',
              HttpOnly = True\<rparr>,
            Redirect (AuthCodeURL (Config c) (EncodeToString bytes)) 307]"
    unfolding tr responseWrites_def
    by (cases "Cookie r stateCookieName") simp_all
  have status: "responseStatus (auth c randRead r) = Some 307"
    unfolding tr
    by (cases "Cookie r stateCookieName") simp_all
  from assms(2) have "length (Encode bytes) = 44" by (rule Encode_32_length)
  then have "EncodeToString bytes \<noteq> []" by (auto simp: EncodeToString_def)
  then have url: "\<exists>pre. AuthCodeURL (Config c) (EncodeToString bytes) =
              pre @ ''&state='' @ QueryEscape (EncodeToString bytes)"
    by (rule AuthCodeURL_state)
  have inj: "bytes' = bytes"
    if "length bytes' = 32" and "EncodeToString bytes' = EncodeToString bytes" for bytes'
    using that assms(2) by (simp add: EncodeToString_def Encode_inject)
  have other: "SetCookie \<lparr>Name = ''oauthState'', Value = EncodeToString bytes, Path = ''/'',
                HttpOnly = True\<rparr> \<notin> set (auth c' randRead' r')"
    if "randRead' 32 = Inr bytes'" and "length bytes' = 32" and "bytes' \<noteq> bytes"
    for randRead' bytes' and c' :: "('t, 'u, 's) client" and r'
  proof
    assume "SetCookie \<lparr>Name = ''oauthState'', Value = EncodeToString bytes, Path = ''/'',
                HttpOnly = True\<rparr> \<in> set (auth c' randRead' r')"
    with that(1) have "Value \<lparr>Name = ''oauthState'', Value = EncodeToString bytes,
        Path = ''/'', HttpOnly = True\<rparr> = EncodeToString bytes'"
      by (rule auth_cookie_set)
    then have "EncodeToString bytes' = EncodeToString bytes" by simp
    with that(2) have "bytes' = bytes" by (rule inj)
    with that(3) show False by contradiction
  qed
  have inj_all: "\<forall>bytes'. length bytes' = 32 \<and> EncodeToString bytes' = EncodeToString bytes \<longrightarrow>
      bytes' = bytes"
    using inj by blast
  have other_all: "\<forall>randRead' bytes' (c' :: ('t, 'u, 's) client) r'.
      randRead' 32 = Inr bytes' \<and> length bytes' = 32 \<and> bytes' \<noteq> bytes \<longrightarrow>
      SetCookie \<lparr>Name = ''oauthState'', Value = EncodeToString bytes, Path = ''/'',
        HttpOnly = True\<rparr> \<notin> set (auth c' randRead' r')"
    using other by blast
  have unesc: "QueryUnescape (QueryEscape (EncodeToString bytes)) = Some (EncodeToString bytes)"
    by (rule QueryUnescape_QueryEscape)
  show ?thesis
    by (rule conjI tr writes status url unesc inj_all other_all)+
qed

theorem auth_sets_cookie_and_redirects_witness:
  "countingSource 32 = Inr (map of_nat [0..<32])
   \<and> length (map of_nat [0..<32] :: byte list) = 32
   \<and> responseWrites (auth (exampleClient (Inr ''tok'') (Inr ''usr'') (Inr ''page''))
       countingSource noCookieRequest) =
     [SetCookie \<lparr>Name = ''oauthState'',
        Value = ''AAECAwQFBgcICQoLDA0ODxAREhMUFRYXGBkaGxwdHh8='', Path = ''/'',
        HttpOnly = True\<rparr>,
      Redirect ''https://accounts.spotify.com/authorize?client_id=id&redirect_uri=http%3A%2F%2Flocalhost%3A8080%2Fauth%2Fcallback&response_type=code&scope=user-library-read&state=AAECAwQFBgcICQoLDA0ODxAREhMUFRYXGBkaGxwdHh8%3D'' 307]
   \<and> onesSource 32 = Inr (replicate 32 255)
   \<and> length (replicate 32 255 :: byte list) = 32
   \<and> (replicate 32 255 :: byte list) \<noteq> map of_nat [0..<32]
   \<and> SetCookie \<lparr>Name = ''oauthState'',
        Value = ''AAECAwQFBgcICQoLDA0ODxAREhMUFRYXGBkaGxwdHh8='', Path = ''/'',
        HttpOnly = True\<rparr>
     \<notin> set (auth (exampleClient (Inr ''tok'') (Inr ''usr'') (Inr ''page''))
         onesSource noCookieRequest)"
proof -
  let ?c = "exampleClient (Inr ''tok'') (Inr ''usr'') (Inr ''page'')"
  have src: "countingSource 32 = Inr (map of_nat [0..<32])"
    by (simp add: countingSource_def)
  have len: "length (map of_nat [0..<32] :: byte list) = 32" by simp
  have src': "onesSource 32 = Inr (replicate 32 255)"
    by (simp add: onesSource_def)
  have len': "length (replicate 32 255 :: byte list) = 32" by simp
  have diff: "(replicate 32 255 :: byte list) \<noteq> map of_nat [0..<32]"
    by code_simp
  have cfg: "Config ?c = exampleConfig"
    by (simp add: exampleClient_def)
  note inst = auth_sets_cookie_and_redirects
      [where randRead = countingSource and bytes = "map of_nat [0..<32]"
        and c = ?c and r = noCookieRequest, OF src len]
  note writes = inst [THEN conjunct2, THEN conjunct1]
  note others = inst [THEN conjunct2, THEN conjunct2, THEN conjunct2, THEN conjunct2,
      THEN conjunct2, THEN conjunct2]
  from writes
  have "responseWrites (auth ?c countingSource noCookieRequest) =
     [SetCookie \<lparr>Name = ''oauthState'',
        Value = EncodeToString (map of_nat [0..<32]), Path = ''/'', HttpOnly = True\<rparr>,
      Redirect (AuthCodeURL exampleConfig (EncodeToString (map of_nat [0..<32]))) 307]"
    unfolding cfg .
  then have one: "responseWrites (auth ?c countingSource noCookieRequest) =
     [SetCookie \<lparr>Name = ''oauthState'',
        Value = ''AAECAwQFBgcICQoLDA0ODxAREhMUFRYXGBkaGxwdHh8='', Path = ''/'',
        HttpOnly = True\<rparr>,
      Redirect ''https://accounts.spotify.com/authorize?client_id=id&redirect_uri=http%3A%2F%2Flocalhost%3A8080%2Fauth%2Fcallback&response_type=code&scope=user-library-read&state=AAECAwQFBgcICQoLDA0ODxAREhMUFRYXGBkaGxwdHh8%3D'' 307]"
    unfolding EncodeToString_def Encode_counting exampleURL .
  from others
  have "onesSource 32 = Inr (replicate 32 255) \<and> length (replicate 32 255 :: byte list) = 32
      \<and> (replicate 32 255 :: byte list) \<noteq> map of_nat [0..<32] \<longrightarrow>
    SetCookie \<lparr>Name = ''oauthState'',
        Value = EncodeToString (map of_nat [0..<32]), Path = ''/'', HttpOnly = True\<rparr>
     \<notin> set (auth ?c onesSource noCookieRequest)"
    by (elim allE)
  with src' len' diff
  have "SetCookie \<lparr>Name = ''oauthState'',
        Value = EncodeToString (map of_nat [0..<32]), Path = ''/'', HttpOnly = True\<rparr>
     \<notin> set (auth ?c onesSource noCookieRequest)"
    by (elim impE) (intro conjI)
  then have two: "SetCookie \<lparr>Name = ''oauthState'',
        Value = ''AAECAwQFBgcICQoLDA0ODxAREhMUFRYXGBkaGxwdHh8='', Path = ''/'',
        HttpOnly = True\<rparr>
     \<notin> set (auth ?c onesSource noCookieRequest)"
    unfolding EncodeToString_def Encode_counting .
  show ?thesis
    by (rule conjI src len one src' len' diff two)+
qed

end
